theory Spec2Isabelle
  imports Complex_Main
begin

text \<open>
  The request handlers of the membership site \<^verbatim>\<open>app.py\<close>, as functions on an explicit store,
  session and cache: the subscription gate, the OAuth callback and registration, the
  subscription actions of users and admins, the calendar export and the cache-fronted list
  views. The markup of pages is left out: a handler returns which page it renders and with
  what data, and rendering the navigation bar is kept as far as it can raise. What a
  handler raises is a value of type \<open>error\<close>.
\<close>

section \<open>Python values and exceptions\<close>

text \<open>
  Every exception the handlers of \<^verbatim>\<open>app.py\<close> raise themselves is a Python
  \<^verbatim>\<open>ValueError\<close> carrying a message. \<open>OverflowError\<close> is what \<^verbatim>\<open>datetime\<close>
  arithmetic raises when the result leaves the supported years, \<open>IntegrityError\<close> and
  \<open>DataError\<close> are what the relational store raises on a violated constraint and on a
  parameter it cannot convert, \<open>UndefinedError\<close> is what the template engine raises when a
  template calls a name it does not know; it carries the name.
\<close>

datatype error =
    ValueError string
  | OverflowError string
  | IntegrityError string
  | DataError string
  | UndefinedError string

text \<open>Truthiness of an optional string: \<^verbatim>\<open>None\<close> and \<^verbatim>\<open>""\<close> are falsy.\<close>

definition truthy :: "string option \<Rightarrow> bool" where
  "truthy v = (case v of None \<Rightarrow> False | Some s \<Rightarrow> s \<noteq> [])"


text \<open>Truthiness of a nullable \<^verbatim>\<open>BIT\<close> column: \<^verbatim>\<open>None\<close> and \<^verbatim>\<open>False\<close> are falsy.\<close>

definition truthy_bit :: "bool option \<Rightarrow> bool" where
  "truthy_bit v = (v = Some True)"

section \<open>Naive datetimes\<close>

record datetime =
  year :: int
  month :: int
  day :: int
  hour :: int
  minute :: int
  second :: int
  microsecond :: int

record timedelta =
  days :: int
  seconds :: int
  microseconds :: int

definition MINYEAR :: int where "MINYEAR = 1"
definition MAXYEAR :: int where "MAXYEAR = 9999"
definition MAXORDINAL :: int where "MAXORDINAL = 3652059"

definition is_leap :: "int \<Rightarrow> bool" where
  "is_leap y = (y mod 4 = 0 \<and> (y mod 100 \<noteq> 0 \<or> y mod 400 = 0))"

definition days_in_month :: "int \<Rightarrow> int \<Rightarrow> int" where
  "days_in_month y m =
     (if m = 2 then (if is_leap y then 29 else 28)
      else if m = 4 \<or> m = 6 \<or> m = 9 \<or> m = 11 then 30
      else 31)"

definition days_before_year :: "int \<Rightarrow> int" where
  "days_before_year y = (y - 1) * 365 + (y - 1) div 4 - (y - 1) div 100 + (y - 1) div 400"

definition days_before_month_common :: "int \<Rightarrow> int" where
  "days_before_month_common m =
     (if m \<le> 1 then 0 else if m = 2 then 31 else if m = 3 then 59 else if m = 4 then 90
      else if m = 5 then 120 else if m = 6 then 151 else if m = 7 then 181
      else if m = 8 then 212 else if m = 9 then 243 else if m = 10 then 273
      else if m = 11 then 304 else 334)"

definition days_before_month :: "int \<Rightarrow> int \<Rightarrow> int" where
  "days_before_month y m =
     days_before_month_common m + (if m > 2 \<and> is_leap y then 1 else 0)"

definition ymd_to_ord :: "int \<Rightarrow> int \<Rightarrow> int \<Rightarrow> int" where
  "ymd_to_ord y m d = days_before_year y + days_before_month y m + d"

text \<open>The inverse of \<open>ymd_to_ord\<close>, as the \<^verbatim>\<open>datetime\<close> module computes it.\<close>

definition ord_to_ymd :: "int \<Rightarrow> int \<times> int \<times> int" where
  "ord_to_ymd ordinal =
     (let n0 = ordinal - 1;
          n400 = n0 div 146097; n1r = n0 mod 146097;
          n100 = n1r div 36524; n2r = n1r mod 36524;
          n4 = n2r div 1461; n3r = n2r mod 1461;
          n1 = n3r div 365; n = n3r mod 365;
          y = n400 * 400 + 1 + n100 * 100 + n4 * 4 + n1
      in if n1 = 4 \<or> n100 = 4 then (y - 1, 12, 31)
         else
           (let leapyear = (n1 = 3 \<and> (n4 \<noteq> 24 \<or> n100 = 3));
                m0 = (n + 50) div 32;
                preceding0 = days_before_month_common m0 + (if m0 > 2 \<and> leapyear then 1 else 0);
                m = (if preceding0 > n then m0 - 1 else m0);
                preceding =
                  (if preceding0 > n
                   then preceding0 - (days_in_month 1 m + (if m = 2 \<and> leapyear then 1 else 0))
                   else preceding0)
            in (y, m, n - preceding + 1)))"

definition valid_datetime :: "datetime \<Rightarrow> bool" where
  "valid_datetime t =
     (MINYEAR \<le> year t \<and> year t \<le> MAXYEAR \<and> 1 \<le> month t \<and> month t \<le> 12 \<and>
      1 \<le> day t \<and> day t \<le> days_in_month (year t) (month t) \<and>
      0 \<le> hour t \<and> hour t < 24 \<and> 0 \<le> minute t \<and> minute t < 60 \<and>
      0 \<le> second t \<and> second t < 60 \<and> 0 \<le> microsecond t \<and> microsecond t < 1000000)"

text \<open>\<^verbatim>\<open>timedelta(hours=h)\<close>, normalised to days and seconds.\<close>

definition timedelta_hours :: "int \<Rightarrow> timedelta" where
  "timedelta_hours h =
     \<lparr>days = (h * 3600) div 86400, seconds = (h * 3600) mod 86400, microseconds = 0\<rparr>"

text \<open>
  Bringing a year, month and day back into range when only the day may be out of range;
  a result outside the years 1 to 9999 raises \<^verbatim>\<open>OverflowError\<close>.
\<close>

definition normalize_y_m_d :: "int \<Rightarrow> int \<Rightarrow> int \<Rightarrow> error + (int \<times> int \<times> int)" where
  "normalize_y_m_d y m d =
     (let dim = days_in_month y m;
          range_check = (\<lambda>(y', m', d').
             if MINYEAR \<le> y' \<and> y' \<le> MAXYEAR then Inr (y', m', d')
             else Inl (OverflowError ''date value out of range''))
      in if d < 1 \<or> d > dim then
           (if d = 0 then
              (if m - 1 > 0 then range_check (y, m - 1, days_in_month y (m - 1))
               else range_check (y - 1, 12, 31))
            else if d = dim + 1 then
              (if m + 1 > 12 then range_check (y + 1, 1, 1) else range_check (y, m + 1, 1))
            else
              (let ordinal = ymd_to_ord y m 1 + d - 1
               in if ordinal < 1 \<or> ordinal > MAXORDINAL
                  then Inl (OverflowError ''date value out of range'')
                  else Inr (ord_to_ymd ordinal)))
         else range_check (y, m, d))"

text \<open>\<^verbatim>\<open>t + delta\<close> for a datetime \<open>t\<close> and a timedelta \<open>delta\<close>.\<close>

definition datetime_add :: "datetime \<Rightarrow> timedelta \<Rightarrow> error + datetime" where
  "datetime_add t delta =
     (let d0 = day t + days delta;
          s0 = second t + seconds delta;
          us0 = microsecond t + microseconds delta;
          us = us0 mod 1000000; s1 = s0 + us0 div 1000000;
          s = s1 mod 60; mi1 = minute t + s1 div 60;
          mi = mi1 mod 60; h1 = hour t + mi1 div 60;
          h = h1 mod 24; d1 = d0 + h1 div 24
      in case normalize_y_m_d (year t) (month t) d1 of
           Inl e \<Rightarrow> Inl e
         | Inr (y', m', d') \<Rightarrow>
             Inr \<lparr>year = y', month = m', day = d', hour = h, minute = mi, second = s,
                  microsecond = us\<rparr>)"

text \<open>Seconds since the start of day 0 of the proleptic Gregorian calendar.\<close>

definition datetime_seconds :: "datetime \<Rightarrow> int" where
  "datetime_seconds t =
     ((ymd_to_ord (year t) (month t) (day t) * 24 + hour t) * 60 + minute t) * 60 + second t"

text \<open>
  Python orders naive datetimes by their fields, most significant first; on valid
  datetimes that is the order of the microseconds counted from day 0.
\<close>

definition datetime_key :: "datetime \<Rightarrow> int" where
  "datetime_key t = datetime_seconds t * 1000000 + microsecond t"

definition datetime_gt :: "datetime \<Rightarrow> datetime \<Rightarrow> bool" where
  "datetime_gt a b = (datetime_key a > datetime_key b)"

text \<open>
  A value of the column type \<^verbatim>\<open>DATETIME\<close>: a valid datetime from the year 1753 on.
\<close>

definition sql_datetime :: "datetime \<Rightarrow> bool" where
  "sql_datetime t = (valid_datetime t \<and> 1753 \<le> year t)"

text \<open>The last hour of the last supported day, 9999-12-31 from 23:00:00 on.\<close>

definition in_last_hour :: "datetime \<Rightarrow> bool" where
  "in_last_hour t = (year t = 9999 \<and> month t = 12 \<and> day t = 31 \<and> hour t = 23)"

subsection \<open>Decimal rendering\<close>

definition digit_char :: "int \<Rightarrow> char" where
  "digit_char n = ''0123456789'' ! nat (n mod 10)"

definition pad2 :: "int \<Rightarrow> string" where
  "pad2 n = [digit_char (n div 10), digit_char n]"

definition pad4 :: "int \<Rightarrow> string" where
  "pad4 n = [digit_char (n div 1000), digit_char (n div 100), digit_char (n div 10), digit_char n]"

text \<open>\<^verbatim>\<open>str(n)\<close> for a natural number.\<close>

fun str_nat :: "nat \<Rightarrow> string" where
  "str_nat n = (if n < 10 then [digit_char (int n)] else str_nat (n div 10) @ [digit_char (int n)])"

text \<open>\<^verbatim>\<open>t.strftime('%Y%m%dT%H%M%SZ')\<close>, for a year of four digits.\<close>

definition strftime_ics :: "datetime \<Rightarrow> string" where
  "strftime_ics t =
     pad4 (year t) @ pad2 (month t) @ pad2 (day t) @ ''T'' @
     pad2 (hour t) @ pad2 (minute t) @ pad2 (second t) @ ''Z''"

text \<open>The shape \<^verbatim>\<open>YYYYMMDDTHHMMSSZ\<close>: sixteen characters, digits but for the two letters.\<close>

definition is_digit :: "char \<Rightarrow> bool" where
  "is_digit c = (c \<in> set ''0123456789'')"

definition timestamp_shape :: "string \<Rightarrow> bool" where
  "timestamp_shape s =
     (length s = 16 \<and> list_all is_digit (take 8 s) \<and> s ! 8 = CHR ''T'' \<and>
      list_all is_digit (take 6 (drop 9 s)) \<and> s ! 15 = CHR ''Z'')"

section \<open>The identity store\<close>

text \<open>
  One record per table of \<^verbatim>\<open>ensure_database_exists\<close>. A column declared without
  \<^verbatim>\<open>NOT NULL\<close> is an \<open>option\<close>. \<^verbatim>\<open>DECIMAL(10,2)\<close> amounts are exact rationals.
\<close>

record user_row =
  UserID :: int
  FirstName :: string
  LastName :: string
  Email :: string
  RoleType :: "string option"
  Address :: string
  City :: string
  StateProvince :: string
  ZipCode :: string
  Country :: string
  CreatedDate :: "datetime option"
  IsActive :: "bool option"
  google_id :: "string option"
  microsoft_id :: "string option"
  facebook_id :: "string option"
  x_id :: "string option"

record consultant_row =
  ConsultantID :: int
  cons_UserID :: int
  Organization :: "string option"
  Summary :: "string option"

record subscription_row =
  SubscriptionID :: int
  sub_UserID :: int
  SubscriptionLevel :: "string option"
  SubscriptionStartDate :: datetime
  Amount :: "rat option"
  PayPalTransactionID :: "string option"
  sub_IsActive :: "bool option"

record event_row =
  EventID :: int
  Title :: string
  EventDateTime :: datetime
  Location :: string
  IsPublic :: "bool option"
  ev_CreatedDate :: "datetime option"
  Description :: "string option"

record payment_row =
  PaymentID :: int
  pay_UserID :: int
  PaymentDate :: datetime
  pay_Amount :: rat
  PaymentStatus :: string
  PaymentMethod :: string

text \<open>
  The store: the five tables in row order, the next \<^verbatim>\<open>IDENTITY\<close> value of the tables
  the handlers insert into, and the reading of the server clock \<^verbatim>\<open>GETDATE()\<close>.
\<close>

record db =
  Users :: "user_row list"
  Consultants :: "consultant_row list"
  Subscriptions :: "subscription_row list"
  Events :: "event_row list"
  Payments :: "payment_row list"
  next_UserID :: int
  next_SubscriptionID :: int
  next_PaymentID :: int
  GETDATE :: datetime

section \<open>Session manager\<close>

record session_data =
  user_id :: int
  email :: "string option"
  role :: "string option"

text \<open>
  The helper calls whose order matters to a caller, in the order they were made.
\<close>

datatype call =
    Call_login_user int "string option" "string option"
  | Call_validate_subscription int
  | Call_redirect string

text \<open>
  What a request handler works on: the store, the signed-cookie session (\<open>None\<close> when the
  key \<^verbatim>\<open>user_id\<close> is absent) and the log of helper calls.
\<close>

record world =
  database :: db
  session :: "session_data option"
  calls :: "call list"

datatype http_method = GET | POST

definition current_user :: "world \<Rightarrow> session_data option" where
  "current_user w = session w"

definition user_is_admin :: "world \<Rightarrow> bool" where
  "user_is_admin w =
     (case current_user w of None \<Rightarrow> False | Some u \<Rightarrow> role u = Some ''Admin'')"

definition login_user :: "world \<Rightarrow> int \<Rightarrow> string option \<Rightarrow> string option \<Rightarrow> world" where
  "login_user w uid em r =
     w\<lparr>session := Some \<lparr>user_id = uid, email = em, role = r\<rparr>,
       calls := calls w @ [Call_login_user uid em r]\<rparr>"

definition logout_user :: "world \<Rightarrow> world" where
  "logout_user w = w\<lparr>session := None\<rparr>"

section \<open>Navigation bar\<close>

text \<open>
  \<^verbatim>\<open>get_navbar_html\<close> renders its template with no context of its own, and \<^verbatim>\<open>app.py\<close>
  registers no name with the template engine. So a template can call what the framework
  and the engine provide, and nothing else: the helpers \<^verbatim>\<open>current_user\<close> and
  \<^verbatim>\<open>user_is_admin\<close> are Python functions of the module, not names of the template.
\<close>

definition template_globals :: "string list" where
  "template_globals =
     [''url_for'', ''get_flashed_messages'', ''config'', ''request'', ''session'', ''g'',
      ''range'', ''dict'', ''lipsum'', ''cycler'', ''joiner'', ''namespace'']"

text \<open>Calling a name in a template: a name the template does not know raises.\<close>

definition jinja_call :: "string \<Rightarrow> error + unit" where
  "jinja_call name =
     (if name \<in> set template_globals then Inr () else Inl (UndefinedError name))"

text \<open>
  The calls the navbar template makes, in the order it reaches them: \<^verbatim>\<open>url_for\<close> for the
  links on the left, \<^verbatim>\<open>current_user()\<close> to choose the right-hand side, and, for a logged-in
  user, \<^verbatim>\<open>user_is_admin()\<close>. The markup itself is left out.
\<close>

definition get_navbar_html :: "world \<Rightarrow> error + unit" where
  "get_navbar_html w =
     (case jinja_call ''url_for'' of
        Inl e \<Rightarrow> Inl e
      | Inr _ \<Rightarrow>
          (case jinja_call ''current_user'' of
             Inl e \<Rightarrow> Inl e
           | Inr _ \<Rightarrow>
               if current_user w \<noteq> None then jinja_call ''user_is_admin'' else Inr ()))"

section \<open>Subscription gate\<close>

text \<open>\<^verbatim>\<open>SELECT * FROM Subscriptions WHERE UserID=:uid\<close> followed by \<^verbatim>\<open>fetchone()\<close>.\<close>

definition select_subscription_by_user :: "db \<Rightarrow> int \<Rightarrow> subscription_row option" where
  "select_subscription_by_user d uid = find (\<lambda>s. sub_UserID s = uid) (Subscriptions d)"

definition NoSubscriptionError :: error where
  "NoSubscriptionError = ValueError ''No subscription found for this user.''"

definition InactiveSubscriptionError :: error where
  "InactiveSubscriptionError =
     ValueError ''Your subscription is not active. Please renew or contact support.''"

definition validate_subscription :: "world \<Rightarrow> int \<Rightarrow> world \<times> (error + unit)" where
  "validate_subscription w uid =
     (let w1 = w\<lparr>calls := calls w @ [Call_validate_subscription uid]\<rparr>
      in case select_subscription_by_user (database w1) uid of
           None \<Rightarrow> (w1, Inl NoSubscriptionError)
         | Some sub \<Rightarrow>
             if \<not> truthy_bit (sub_IsActive sub) then (w1, Inl InactiveSubscriptionError)
             else (w1, Inr ()))"


section \<open>Statements against the store\<close>

text \<open>
  \<^verbatim>\<open>SELECT * FROM Users WHERE Email=:em\<close> followed by \<^verbatim>\<open>fetchone()\<close>. A \<^verbatim>\<open>NULL\<close>
  parameter equals no stored value; text is compared character by character, and the
  first matching row in table order is the one fetched.
\<close>

definition select_user_by_email :: "db \<Rightarrow> string option \<Rightarrow> user_row option" where
  "select_user_by_email d em =
     (case em of None \<Rightarrow> None | Some e \<Rightarrow> find (\<lambda>u. Email u = e) (Users d))"

text \<open>
  \<^verbatim>\<open>INSERT INTO Users (...) OUTPUT inserted.UserID\<close>: \<open>em\<close> is the \<^verbatim>\<open>Email\<close> parameter and
  \<open>r\<close> carries the other columns the statement names. \<^verbatim>\<open>UserID\<close> is the next identity
  value, \<^verbatim>\<open>CreatedDate\<close> and \<^verbatim>\<open>IsActive\<close> take their defaults. \<^verbatim>\<open>Email\<close> is
  \<^verbatim>\<open>NOT NULL UNIQUE\<close>.
\<close>

definition insert_user :: "db \<Rightarrow> string option \<Rightarrow> user_row \<Rightarrow> error + (db \<times> int)" where
  "insert_user d em r =
     (case em of
        None \<Rightarrow> Inl (IntegrityError ''Cannot insert the value NULL into column Email'')
      | Some e \<Rightarrow>
          if e \<in> set (map Email (Users d))
          then Inl (IntegrityError ''Violation of UNIQUE KEY constraint'')
          else
            (let uid = next_UserID d;
                 row = r\<lparr>UserID := uid, Email := e, CreatedDate := Some (GETDATE d),
                          IsActive := Some True\<rparr>
             in Inr (d\<lparr>Users := Users d @ [row], next_UserID := uid + 1\<rparr>, uid)))"

definition get_column :: "string \<Rightarrow> user_row \<Rightarrow> string option" where
  "get_column col u =
     (if col = ''google_id'' then google_id u
      else if col = ''microsoft_id'' then microsoft_id u
      else if col = ''facebook_id'' then facebook_id u
      else if col = ''x_id'' then x_id u
      else None)"

definition set_column :: "string \<Rightarrow> string option \<Rightarrow> user_row \<Rightarrow> user_row" where
  "set_column col v u =
     (if col = ''google_id'' then u\<lparr>google_id := v\<rparr>
      else if col = ''microsoft_id'' then u\<lparr>microsoft_id := v\<rparr>
      else if col = ''facebook_id'' then u\<lparr>facebook_id := v\<rparr>
      else if col = ''x_id'' then u\<lparr>x_id := v\<rparr>
      else u)"


text \<open>
  \<^verbatim>\<open>INSERT INTO Subscriptions (UserID, SubscriptionLevel, SubscriptionStartDate, Amount,
  IsActive) VALUES (:uid, 'Free', GETDATE(), 0.00, 1)\<close>.
\<close>

definition insert_free_subscription :: "db \<Rightarrow> int \<Rightarrow> db" where
  "insert_free_subscription d uid =
     d\<lparr>Subscriptions := Subscriptions d @
          [\<lparr>SubscriptionID = next_SubscriptionID d, sub_UserID = uid,
            SubscriptionLevel = Some ''Free'', SubscriptionStartDate = GETDATE d,
            Amount = Some 0, PayPalTransactionID = None, sub_IsActive = Some True\<rparr>],
       next_SubscriptionID := next_SubscriptionID d + 1\<rparr>"

text \<open>
  \<^verbatim>\<open>INSERT INTO Payments (UserID, Amount, PaymentStatus, PaymentMethod)
  VALUES (:u, 99.99, 'Completed', 'PayPal')\<close>.
\<close>

definition insert_payment :: "db \<Rightarrow> int \<Rightarrow> db" where
  "insert_payment d uid =
     d\<lparr>Payments := Payments d @
          [\<lparr>PaymentID = next_PaymentID d, pay_UserID = uid, PaymentDate = GETDATE d,
            pay_Amount = 99.99, PaymentStatus = ''Completed'', PaymentMethod = ''PayPal''\<rparr>],
       next_PaymentID := next_PaymentID d + 1\<rparr>"

text \<open>\<^verbatim>\<open>UPDATE Subscriptions SET ... WHERE SubscriptionID=:sid\<close>, \<open>f\<close> being the assignments.\<close>

definition update_subscription ::
  "db \<Rightarrow> int \<Rightarrow> (subscription_row \<Rightarrow> subscription_row) \<Rightarrow> db" where
  "update_subscription d sid f =
     d\<lparr>Subscriptions := map (\<lambda>s. if SubscriptionID s = sid then f s else s) (Subscriptions d)\<rparr>"

text \<open>\<^verbatim>\<open>SELECT * FROM Subscriptions WHERE SubscriptionID=:sid\<close> followed by \<^verbatim>\<open>fetchone()\<close>.\<close>

definition select_subscription_by_id :: "db \<Rightarrow> int \<Rightarrow> subscription_row option" where
  "select_subscription_by_id d sid = find (\<lambda>s. SubscriptionID s = sid) (Subscriptions d)"

text \<open>The assignments of the five \<^verbatim>\<open>UPDATE Subscriptions\<close> statements.\<close>

definition set_upgrade :: "subscription_row \<Rightarrow> subscription_row" where
  "set_upgrade s = s\<lparr>SubscriptionLevel := Some ''Paid'', Amount := Some 99.99,
                     sub_IsActive := Some True\<rparr>"

definition set_inactive :: "subscription_row \<Rightarrow> subscription_row" where
  "set_inactive s = s\<lparr>sub_IsActive := Some False\<rparr>"

definition set_active :: "subscription_row \<Rightarrow> subscription_row" where
  "set_active s = s\<lparr>sub_IsActive := Some True\<rparr>"

definition set_refund :: "subscription_row \<Rightarrow> subscription_row" where
  "set_refund s = s\<lparr>Amount := Some 0, sub_IsActive := Some False\<rparr>"

text \<open>
  The listing of the admin page: subscriptions joined with their user's email, by
  descending subscription id.
\<close>

definition select_subscriptions_with_email :: "db \<Rightarrow> (subscription_row \<times> string) list" where
  "select_subscriptions_with_email d =
     sort_key (\<lambda>(s, e). - SubscriptionID s)
       (concat (map (\<lambda>s. map (\<lambda>u. (s, Email u))
                              (filter (\<lambda>u. sub_UserID s = UserID u) (Users d)))
                    (Subscriptions d)))"

section \<open>Responses\<close>

datatype dtval = DT datetime | DTStr string

text \<open>
  A row of \<^verbatim>\<open>Events\<close> as a dictionary. \<open>'t\<close> is what \<^verbatim>\<open>EventDateTime\<close> holds: a
  \<open>dtval\<close> when the dictionary may come from JSON, a \<open>datetime\<close> once strings are parsed.
\<close>

record 't event_dict =
  d_EventID :: int
  d_Title :: string
  d_EventDateTime :: 't
  d_Location :: string
  d_IsPublic :: "bool option"
  d_CreatedDate :: "dtval option"
  d_Description :: "string option"

record consultant_dict =
  d_ConsultantID :: int
  d_UserID :: int
  d_Organization :: "string option"
  d_Summary :: "string option"
  d_FirstName :: string
  d_LastName :: string
  d_City :: string

datatype response =
    Redirect string
  | RegisterPage
  | SubscriptionPage subscription_row
  | AdminSubscriptionsPage "(subscription_row \<times> string) list"
  | HomePage "datetime event_dict list"
  | EventsPage "datetime event_dict list" "datetime event_dict list"
  | ConsultantsPage "consultant_dict list"
  | Calendar string "(string \<times> string) list"

definition redirect :: "world \<Rightarrow> string \<Rightarrow> world \<times> (error + response)" where
  "redirect w target = (w\<lparr>calls := calls w @ [Call_redirect target]\<rparr>, Inr (Redirect target))"

section \<open>OAuth callback\<close>





section \<open>Registration\<close>

definition required_fields :: "string list" where
  "required_fields =
     [''first_name'', ''last_name'', ''email'', ''address'', ''city'', ''state_province'',
      ''zip_code'', ''country'']"

text \<open>\<^verbatim>\<open>form[key]\<close> once the key is known to be present.\<close>

definition form_value :: "(string \<rightharpoonup> string) \<Rightarrow> string \<Rightarrow> string" where
  "form_value form k = (case form k of None \<Rightarrow> [] | Some v \<Rightarrow> v)"

text \<open>
  The handler of \<^verbatim>\<open>/register\<close>, for the methods \<^verbatim>\<open>GET\<close> and \<^verbatim>\<open>POST\<close>. Its first
  statement renders the navbar.
\<close>

definition register ::
  "world \<Rightarrow> http_method \<Rightarrow> (string \<rightharpoonup> string) \<Rightarrow> world \<times> (error + response)" where
  "register w method form =
     (case get_navbar_html w of
        Inl e \<Rightarrow> (w, Inl e)
      | Inr navbar_html \<Rightarrow>
      if method = POST then
        (case find (\<lambda>field. \<not> truthy (form field)) required_fields of
           Some field \<Rightarrow> (w, Inl (ValueError (''Missing required field: '' @ field)))
         | None \<Rightarrow>
           (case select_user_by_email (database w) (form ''email'') of
              Some _ \<Rightarrow> (w, Inl (ValueError ''User already exists with that email.''))
            | None \<Rightarrow>
              (case insert_user (database w) (form ''email'')
                      \<lparr>UserID = 0, FirstName = form_value form ''first_name'',
                       LastName = form_value form ''last_name'', Email = [],
                       RoleType = Some ''Reader'', Address = form_value form ''address'',
                       City = form_value form ''city'',
                       StateProvince = form_value form ''state_province'',
                       ZipCode = form_value form ''zip_code'',
                       Country = form_value form ''country'', CreatedDate = None,
                       IsActive = None, google_id = None, microsoft_id = None,
                       facebook_id = None, x_id = None\<rparr> of
                 Inl e \<Rightarrow> (w, Inl e)
               | Inr (d1, new_id) \<Rightarrow>
                   (let d2 = insert_free_subscription d1 new_id;
                        w1 = login_user (w\<lparr>database := d2\<rparr>) new_id (form ''email'')
                               (Some ''Reader'')
                    in redirect w1 ''dashboard''))))
      else (w, Inr RegisterPage))"

section \<open>Subscription actions\<close>

text \<open>
  The handler of \<^verbatim>\<open>/my_subscription\<close>; \<open>form\<close> is the posted form. A \<^verbatim>\<open>POST\<close> ends in a
  redirect and renders nothing; a \<^verbatim>\<open>GET\<close> renders the navbar for the page it returns.
\<close>

definition my_subscription ::
  "world \<Rightarrow> http_method \<Rightarrow> (string \<rightharpoonup> string) \<Rightarrow> world \<times> (error + response)" where
  "my_subscription w method form =
     (case current_user w of
        None \<Rightarrow> redirect w ''login''
      | Some cu \<Rightarrow>
        (let uid = user_id cu in
         if method = POST then
           (let action = form ''action'' in
            case select_subscription_by_user (database w) uid of
              None \<Rightarrow> (w, Inl (ValueError ''No subscription found. Contact support.''))
            | Some sub \<Rightarrow>
                (let d1 =
                   (if action = Some ''upgrade''
                    then update_subscription (insert_payment (database w) uid)
                           (SubscriptionID sub) set_upgrade
                    else if action = Some ''cancel''
                    then update_subscription (database w) (SubscriptionID sub) set_inactive
                    else database w)
                 in redirect (w\<lparr>database := d1\<rparr>) ''my_subscription''))
         else
           (case select_subscription_by_user (database w) uid of
              None \<Rightarrow> (w, Inl (ValueError ''No subscription found. Contact support.''))
            | Some sub \<Rightarrow>
                (case get_navbar_html w of
                   Inl e \<Rightarrow> (w, Inl e)
                 | Inr navbar \<Rightarrow> (w, Inr (SubscriptionPage sub))))))"

text \<open>
  The handler of \<^verbatim>\<open>/admin/subscriptions\<close>. After the admin test it renders the navbar,
  for either method. The form's \<^verbatim>\<open>subscription_id\<close> is text and the column is an
  \<^verbatim>\<open>INT\<close>: \<open>sql_int\<close> is the store's conversion of the parameter, which fails on text
  that is no number.
\<close>

definition admin_subscriptions ::
  "(string \<Rightarrow> int option) \<Rightarrow> world \<Rightarrow> http_method \<Rightarrow> (string \<rightharpoonup> string) \<Rightarrow>
   world \<times> (error + response)" where
  "admin_subscriptions sql_int w method form =
     (if \<not> user_is_admin w then (w, Inl (ValueError ''Unauthorized access.''))
      else case get_navbar_html w of
        Inl e \<Rightarrow> (w, Inl e)
      | Inr navbar_html \<Rightarrow>
      if method = POST then
        (let sub_id = form ''subscription_id''; action = form ''action'' in
         case sub_id of
           None \<Rightarrow> (w, Inl (ValueError ''Missing subscription ID''))
         | Some sid_text \<Rightarrow>
           if sid_text = [] then (w, Inl (ValueError ''Missing subscription ID''))
           else
             (case sql_int sid_text of
                None \<Rightarrow> (w, Inl (DataError ''Conversion failed when converting to data type int''))
              | Some sid \<Rightarrow>
                (case select_subscription_by_id (database w) sid of
                   None \<Rightarrow> (w, Inl (ValueError ''Subscription not found.''))
                 | Some sub \<Rightarrow>
                     if action = Some ''deactivate''
                     then redirect (w\<lparr>database := update_subscription (database w) sid set_inactive\<rparr>)
                            ''admin_subscriptions''
                     else if action = Some ''activate''
                     then redirect (w\<lparr>database := update_subscription (database w) sid set_active\<rparr>)
                            ''admin_subscriptions''
                     else if action = Some ''refund''
                     then redirect (w\<lparr>database := update_subscription (database w) sid set_refund\<rparr>)
                            ''admin_subscriptions''
                     else (w, Inl (ValueError ''Unknown action'')))))
      else (w, Inr (AdminSubscriptionsPage (select_subscriptions_with_email (database w)))))"

section \<open>Events and calendar export\<close>

text \<open>\<^verbatim>\<open>dict(row)\<close> for a row of \<^verbatim>\<open>Events\<close>: the store hands datetimes over as such.\<close>

definition dict_of_event :: "event_row \<Rightarrow> dtval event_dict" where
  "dict_of_event r =
     \<lparr>d_EventID = EventID r, d_Title = Title r, d_EventDateTime = DT (EventDateTime r),
      d_Location = Location r, d_IsPublic = IsPublic r,
      d_CreatedDate = map_option DT (ev_CreatedDate r), d_Description = Description r\<rparr>"

text \<open>\<^verbatim>\<open>SELECT * FROM Events WHERE EventID=:eid\<close> followed by \<^verbatim>\<open>fetchone()\<close>.\<close>

definition select_event_by_id :: "db \<Rightarrow> int \<Rightarrow> event_row option" where
  "select_event_by_id d eid = find (\<lambda>e. EventID e = eid) (Events d)"

text \<open>\<^verbatim>\<open>s.replace("Z", "")\<close>.\<close>

definition remove_Z :: "string \<Rightarrow> string" where
  "remove_Z s = filter (\<lambda>c. c \<noteq> CHR ''Z'') s"

text \<open>
  \<^verbatim>\<open>if isinstance(v, str): v = datetime.fromisoformat(v.replace("Z", ""))\<close>, the parser
  \<open>fromisoformat\<close> being the library's.
\<close>

definition parse_if_str :: "(string \<Rightarrow> error + datetime) \<Rightarrow> dtval \<Rightarrow> error + datetime" where
  "parse_if_str fromisoformat v =
     (case v of DT t \<Rightarrow> Inr t | DTStr s \<Rightarrow> fromisoformat (remove_Z s))"

text \<open>How an f-string renders an optional string: \<^verbatim>\<open>None\<close> prints as \<^verbatim>\<open>None\<close>.\<close>

definition format_opt :: "string option \<Rightarrow> string" where
  "format_opt v = (case v of None \<Rightarrow> ''None'' | Some s \<Rightarrow> s)"

definition nl :: string where
  "nl = [CHR 0x0A]"

definition dquote :: string where
  "dquote = [CHR 0x22]"

text \<open>
  The handler of \<^verbatim>\<open>/events/<int:event_id>/ics\<close>. The route admits natural numbers only.
  \<open>utcnow\<close> is the reading of \<^verbatim>\<open>datetime.utcnow()\<close>.
\<close>

definition event_ics ::
  "(string \<Rightarrow> error + datetime) \<Rightarrow> datetime \<Rightarrow> db \<Rightarrow> nat \<Rightarrow> error + response" where
  "event_ics fromisoformat utcnow d event_id =
     (case select_event_by_id d (int event_id) of
        None \<Rightarrow> Inl (ValueError ''Event not found'')
      | Some row \<Rightarrow>
        (let event = dict_of_event row in
         case parse_if_str fromisoformat (d_EventDateTime event) of
           Inl e \<Rightarrow> Inl e
         | Inr start_time \<Rightarrow>
           (case datetime_add start_time (timedelta_hours 1) of
              Inl e \<Rightarrow> Inl e
            | Inr end_time \<Rightarrow>
              (let ics =
                 ''BEGIN:VCALENDAR'' @ nl @
                 ''VERSION:2.0'' @ nl @
                 ''PRODID:-//CCN//EN'' @ nl @
                 ''BEGIN:VEVENT'' @ nl @
                 ''UID:'' @ str_nat event_id @ ''@ccn'' @ nl @
                 ''DTSTAMP:'' @ strftime_ics utcnow @ nl @
                 ''DTSTART:'' @ strftime_ics start_time @ nl @
                 ''DTEND:'' @ strftime_ics end_time @ nl @
                 ''SUMMARY:'' @ d_Title event @ nl @
                 ''LOCATION:'' @ d_Location event @ nl @
                 ''DESCRIPTION:'' @ format_opt (d_Description event) @ nl @
                 ''END:VEVENT'' @ nl @
                 ''END:VCALENDAR'' @ nl
               in Inr (Calendar ics
                    [(''Content-Type'', ''text/calendar''),
                     (''Content-Disposition'',
                      ''attachment; filename='' @ dquote @ ''event_'' @ str_nat event_id @
                      ''.ics'' @ dquote)])))))"

section \<open>Cache-fronted list views\<close>

text \<open>
  The cache: a value and the time to live it was stored with, per key. Expiry is the
  backend's business; a key that has expired is a key that is absent.
\<close>

type_synonym cache = "string \<rightharpoonup> (string \<times> nat)"

definition redis_get :: "cache \<Rightarrow> string \<Rightarrow> string option" where
  "redis_get c k = map_option fst (c k)"

definition redis_setex :: "cache \<Rightarrow> string \<Rightarrow> nat \<Rightarrow> string \<Rightarrow> cache" where
  "redis_setex c k ttl v = c(k \<mapsto> (v, ttl))"

text \<open>\<^verbatim>\<open>SELECT * FROM Events ORDER BY EventDateTime DESC\<close>, and its \<^verbatim>\<open>TOP 5\<close>.\<close>

definition select_events :: "db \<Rightarrow> event_row list" where
  "select_events d = sort_key (\<lambda>e. - datetime_key (EventDateTime e)) (Events d)"

definition select_top5_events :: "db \<Rightarrow> event_row list" where
  "select_top5_events d = take 5 (select_events d)"

text \<open>
  \<^verbatim>\<open>SELECT c.*, u.FirstName, u.LastName, u.City FROM Consultants c JOIN Users u
  ON c.UserID=u.UserID\<close>.
\<close>

definition select_consultants :: "db \<Rightarrow> consultant_dict list" where
  "select_consultants d =
     concat (map (\<lambda>c. map (\<lambda>u. \<lparr>d_ConsultantID = ConsultantID c, d_UserID = cons_UserID c,
                                  d_Organization = Organization c, d_Summary = Summary c,
                                  d_FirstName = FirstName u, d_LastName = LastName u,
                                  d_City = City u\<rparr>)
                           (filter (\<lambda>u. cons_UserID c = UserID u) (Users d)))
                 (Consultants d))"

text \<open>
  The loop \<^verbatim>\<open>for e in events: if isinstance(e["EventDateTime"], str): ...\<close>; the first
  string that does not parse raises.
\<close>

fun parse_event_datetimes ::
  "(string \<Rightarrow> error + datetime) \<Rightarrow> dtval event_dict list \<Rightarrow> error + datetime event_dict list" where
  "parse_event_datetimes fromisoformat [] = Inr []"
| "parse_event_datetimes fromisoformat (e # es) =
     (case parse_if_str fromisoformat (d_EventDateTime e) of
        Inl err \<Rightarrow> Inl err
      | Inr t \<Rightarrow>
          (case parse_event_datetimes fromisoformat es of
             Inl err \<Rightarrow> Inl err
           | Inr es' \<Rightarrow>
               Inr (\<lparr>d_EventID = d_EventID e, d_Title = d_Title e, d_EventDateTime = t,
                     d_Location = d_Location e, d_IsPublic = d_IsPublic e,
                     d_CreatedDate = d_CreatedDate e, d_Description = d_Description e\<rparr> # es')))"

text \<open>
  The handler of \<^verbatim>\<open>/\<close>, with the clock reading \<open>now_dt\<close>. Its first statement renders
  the navbar. \<open>json_loads\<close> and \<open>json_dumps\<close> are the library's \<^verbatim>\<open>json.loads\<close> and
  \<^verbatim>\<open>json.dumps(..., default=str)\<close>; a cached value that is the empty string is falsy, as
  an absent one is.
\<close>

definition home ::
  "(string \<Rightarrow> error + dtval event_dict list) \<Rightarrow> (dtval event_dict list \<Rightarrow> string) \<Rightarrow>
   (string \<Rightarrow> error + datetime) \<Rightarrow> datetime \<Rightarrow> cache \<Rightarrow> world \<Rightarrow> cache \<times> (error + response)" where
  "home json_loads json_dumps fromisoformat now_dt c w =
     (case get_navbar_html w of
        Inl e \<Rightarrow> (c, Inl e)
      | Inr navbar_html \<Rightarrow>
      let cache_key = ''homepage_events'';
          cached = redis_get c cache_key;
          (c1, loaded) =
            (case cached of
               Some v \<Rightarrow>
                 if v \<noteq> [] then (c, json_loads v)
                 else (let events = map dict_of_event (select_top5_events (database w))
                       in (redis_setex c cache_key 300 (json_dumps events), Inr events))
             | None \<Rightarrow>
                 (let events = map dict_of_event (select_top5_events (database w))
                  in (redis_setex c cache_key 300 (json_dumps events), Inr events)))
      in case loaded of
           Inl e \<Rightarrow> (c1, Inl e)
         | Inr events \<Rightarrow>
             (case parse_event_datetimes fromisoformat events of
                Inl e \<Rightarrow> (c1, Inl e)
              | Inr events' \<Rightarrow>
                  (c1, Inr (HomePage
                     (filter (\<lambda>evt. datetime_gt (d_EventDateTime evt) now_dt) events')))))"

text \<open>The handler of \<^verbatim>\<open>/events\<close>; it too renders the navbar first.\<close>

definition list_events ::
  "(string \<Rightarrow> error + dtval event_dict list) \<Rightarrow> (dtval event_dict list \<Rightarrow> string) \<Rightarrow>
   (string \<Rightarrow> error + datetime) \<Rightarrow> datetime \<Rightarrow> cache \<Rightarrow> world \<Rightarrow> cache \<times> (error + response)" where
  "list_events json_loads json_dumps fromisoformat now_dt c w =
     (case get_navbar_html w of
        Inl e \<Rightarrow> (c, Inl e)
      | Inr navbar_html \<Rightarrow>
      let key = ''events_list'';
          cached = redis_get c key;
          (c1, loaded) =
            (case cached of
               Some v \<Rightarrow>
                 if v \<noteq> [] then (c, json_loads v)
                 else (let events = map dict_of_event (select_events (database w))
                       in (redis_setex c key 300 (json_dumps events), Inr events))
             | None \<Rightarrow>
                 (let events = map dict_of_event (select_events (database w))
                  in (redis_setex c key 300 (json_dumps events), Inr events)))
      in case loaded of
           Inl e \<Rightarrow> (c1, Inl e)
         | Inr events \<Rightarrow>
             (case parse_event_datetimes fromisoformat events of
                Inl e \<Rightarrow> (c1, Inl e)
              | Inr events' \<Rightarrow>
                  (c1, Inr (EventsPage
                     (filter (\<lambda>evt. datetime_gt (d_EventDateTime evt) now_dt) events')
                     (filter (\<lambda>evt. \<not> datetime_gt (d_EventDateTime evt) now_dt) events')))))"

text \<open>The handler of \<^verbatim>\<open>/consultants\<close>; it too renders the navbar first.\<close>

definition list_consultants ::
  "(string \<Rightarrow> error + consultant_dict list) \<Rightarrow> (consultant_dict list \<Rightarrow> string) \<Rightarrow>
   cache \<Rightarrow> world \<Rightarrow> cache \<times> (error + response)" where
  "list_consultants json_loads json_dumps c w =
     (case get_navbar_html w of
        Inl e \<Rightarrow> (c, Inl e)
      | Inr navbar_html \<Rightarrow>
      let cache_key = ''consultants_list'';
          cached = redis_get c cache_key;
          (c1, loaded) =
            (case cached of
               Some v \<Rightarrow>
                 if v \<noteq> [] then (c, json_loads v)
                 else (let consultants = select_consultants (database w)
                       in (redis_setex c cache_key 600 (json_dumps consultants), Inr consultants))
             | None \<Rightarrow>
                 (let consultants = select_consultants (database w)
                  in (redis_setex c cache_key 600 (json_dumps consultants), Inr consultants)))
      in case loaded of
           Inl e \<Rightarrow> (c1, Inl e)
         | Inr consultants \<Rightarrow> (c1, Inr (ConsultantsPage consultants)))"

section \<open>Notions used in the statements\<close>

text \<open>The columns of a subscription that no transition is meant to touch.\<close>

definition frame_fields :: "subscription_row \<Rightarrow> int \<times> int \<times> datetime \<times> string option" where
  "frame_fields s = (SubscriptionID s, sub_UserID s, SubscriptionStartDate s, PayPalTransactionID s)"




section \<open>Sample data\<close>

text \<open>Concrete stores and requests on which the results below are exercised.\<close>

definition ex_start :: datetime where
  "ex_start = \<lparr>year = 2025, month = 3, day = 1, hour = 10, minute = 0, second = 0, microsecond = 0\<rparr>"

definition ex_late :: datetime where
  "ex_late = \<lparr>year = 9999, month = 12, day = 31, hour = 23, minute = 30, second = 0, microsecond = 0\<rparr>"

definition ex_events :: "event_row list" where
  "ex_events =
     [\<lparr>EventID = 7, Title = ''Talk'', EventDateTime = ex_start, Location = ''Zoom'',
       IsPublic = Some True, ev_CreatedDate = None, Description = Some ''Abstract''\<rparr>,
      \<lparr>EventID = 8, Title = ''Finale'', EventDateTime = ex_late, Location = ''Zoom'',
       IsPublic = Some True, ev_CreatedDate = None, Description = None\<rparr>]"

definition ex_fromisoformat :: "string \<Rightarrow> error + datetime" where
  "ex_fromisoformat s = Inl (ValueError (''Invalid isoformat string: '' @ s))"

definition ex_ann :: user_row where
  "ex_ann = \<lparr>UserID = 1, FirstName = ''Ann'', LastName = ''Lee'', Email = ''ann@example.org'',
             RoleType = Some ''Reader'', Address = ''1 Main St'', City = ''Trenton'',
             StateProvince = ''NJ'', ZipCode = ''08601'', Country = ''USA'',
             CreatedDate = Some ex_start, IsActive = Some True, google_id = None,
             microsoft_id = None, facebook_id = None, x_id = None\<rparr>"

definition ex_admin :: user_row where
  "ex_admin = \<lparr>UserID = 2, FirstName = ''Admin'', LastName = ''User'', Email = ''admin'',
               RoleType = Some ''Admin'', Address = ''123 Admin St'', City = ''AdminCity'',
               StateProvince = ''AdminState'', ZipCode = ''00000'', Country = ''AdminLand'',
               CreatedDate = Some ex_start, IsActive = Some True, google_id = None,
               microsoft_id = None, facebook_id = None, x_id = None\<rparr>"

definition ex_bob :: user_row where
  "ex_bob = \<lparr>UserID = 3, FirstName = ''Bob'', LastName = ''Ray'', Email = ''bob@example.org'',
             RoleType = Some ''Reader'', Address = ''2 Side St'', City = ''Newark'',
             StateProvince = ''NJ'', ZipCode = ''07101'', Country = ''USA'',
             CreatedDate = Some ex_start, IsActive = Some True, google_id = Some ''g-bob'',
             microsoft_id = None, facebook_id = None, x_id = None\<rparr>"

definition ex_sub_ann :: subscription_row where
  "ex_sub_ann = \<lparr>SubscriptionID = 1, sub_UserID = 1, SubscriptionLevel = Some ''Free'',
                 SubscriptionStartDate = ex_start, Amount = Some 0,
                 PayPalTransactionID = None, sub_IsActive = Some True\<rparr>"

definition ex_sub_bob :: subscription_row where
  "ex_sub_bob = \<lparr>SubscriptionID = 2, sub_UserID = 3, SubscriptionLevel = Some ''Paid'',
                 SubscriptionStartDate = ex_start, Amount = Some 99.99,
                 PayPalTransactionID = None, sub_IsActive = Some False\<rparr>"

definition ex_store :: db where
  "ex_store = \<lparr>Users = [ex_ann, ex_admin, ex_bob], Consultants = [],
               Subscriptions = [ex_sub_ann, ex_sub_bob], Events = ex_events, Payments = [],
               next_UserID = 4, next_SubscriptionID = 3, next_PaymentID = 1,
               GETDATE = ex_start\<rparr>"

text \<open>A store in which one user has two subscription rows, the first of them cancelled.\<close>

definition ex_sub_eve_old :: subscription_row where
  "ex_sub_eve_old = \<lparr>SubscriptionID = 1, sub_UserID = 5, SubscriptionLevel = Some ''Free'',
                     SubscriptionStartDate = ex_start, Amount = Some 0,
                     PayPalTransactionID = None, sub_IsActive = Some False\<rparr>"

definition ex_sub_eve_new :: subscription_row where
  "ex_sub_eve_new = \<lparr>SubscriptionID = 2, sub_UserID = 5, SubscriptionLevel = Some ''Paid'',
                     SubscriptionStartDate = ex_start, Amount = Some 99.99,
                     PayPalTransactionID = None, sub_IsActive = Some True\<rparr>"

definition ex_world_two_rows :: world where
  "ex_world_two_rows =
     \<lparr>database = \<lparr>Users = [], Consultants = [],
                   Subscriptions = [ex_sub_eve_old, ex_sub_eve_new], Events = [], Payments = [],
                   next_UserID = 6, next_SubscriptionID = 3, next_PaymentID = 1,
                   GETDATE = ex_start\<rparr>,
      session = None, calls = []\<rparr>"

definition ex_world :: "session_data option \<Rightarrow> world" where
  "ex_world s = \<lparr>database = ex_store, session = s, calls = []\<rparr>"

definition ex_session_ann :: session_data where
  "ex_session_ann = \<lparr>user_id = 1, email = Some ''ann@example.org'', role = Some ''Reader''\<rparr>"

definition ex_session_bob :: session_data where
  "ex_session_bob = \<lparr>user_id = 3, email = Some ''bob@example.org'', role = Some ''Reader''\<rparr>"

definition ex_session_admin :: session_data where
  "ex_session_admin = \<lparr>user_id = 2, email = Some ''admin'', role = Some ''Admin''\<rparr>"

text \<open>A conversion of decimal text to an integer, for the store's parameter conversion.\<close>

definition digit_value :: "char \<Rightarrow> int" where
  "digit_value c = int (length (takeWhile (\<lambda>d. d \<noteq> c) ''0123456789''))"

definition ex_sql_int :: "string \<Rightarrow> int option" where
  "ex_sql_int s =
     (if s \<noteq> [] \<and> list_all is_digit s
      then Some (foldl (\<lambda>n c. 10 * n + digit_value c) 0 s) else None)"

definition ex_form_upgrade :: "string \<rightharpoonup> string" where
  "ex_form_upgrade = [''action'' \<mapsto> ''upgrade'']"

definition ex_form_cancel :: "string \<rightharpoonup> string" where
  "ex_form_cancel = [''action'' \<mapsto> ''cancel'']"

definition ex_form_refund :: "string \<rightharpoonup> string" where
  "ex_form_refund = [''subscription_id'' \<mapsto> ''2'', ''action'' \<mapsto> ''refund'']"

definition ex_form_register :: "string \<Rightarrow> string \<rightharpoonup> string" where
  "ex_form_register em =
     [''first_name'' \<mapsto> ''Cat'', ''last_name'' \<mapsto> ''Doe'', ''email'' \<mapsto> em,
      ''address'' \<mapsto> ''3 Elm St'', ''city'' \<mapsto> ''Camden'', ''state_province'' \<mapsto> ''NJ'',
      ''zip_code'' \<mapsto> ''08102'', ''country'' \<mapsto> ''USA'']"




text \<open>Stand-ins for the JSON codec on the one document the samples need, and a sample cache.\<close>

definition ex_json_loads :: "string \<Rightarrow> error + 'a list" where
  "ex_json_loads s = (if s = ''[]'' then Inr [] else Inl (ValueError ''Expecting value''))"

definition ex_json_dumps :: "'a list \<Rightarrow> string" where
  "ex_json_dumps xs = (if xs = [] then ''[]'' else ''[...]'')"

definition ex_cache :: cache where
  "ex_cache = [''consultants_list'' \<mapsto> (''[]'', 600)]"

section \<open>Properties of the subscription gate\<close>

lemma gate_errors_distinct: "NoSubscriptionError \<noteq> InactiveSubscriptionError"
  by (simp add: NoSubscriptionError_def InactiveSubscriptionError_def)

lemma find_filter_head:
  "find P xs = (case filter P xs of [] \<Rightarrow> None | x # rest \<Rightarrow> Some x)"
  by (induction xs) simp_all

lemma validate_subscription_result:
  "snd (validate_subscription w uid) =
     (case filter (\<lambda>s. sub_UserID s = uid) (Subscriptions (database w)) of
        [] \<Rightarrow> Inl NoSubscriptionError
      | s # rest \<Rightarrow> if sub_IsActive s = Some True then Inr () else Inl InactiveSubscriptionError)"
  by (simp add: validate_subscription_def select_subscription_by_user_def find_filter_head
      Let_def truthy_bit_def split: list.splits)

lemma validate_subscription_state:
  "database (fst (validate_subscription w uid)) = database w"
  "session (fst (validate_subscription w uid)) = session w"
  by (simp_all add: validate_subscription_def Let_def split: option.splits)

text \<open>
  Claim C1, as amended. For every store and user id, with the subscription rows of the
  store that carry the user id taken in table order: validation fails with
  \<open>NoSubscriptionError\<close> exactly when there is no such row, succeeds exactly when there is
  one and the first of them has its active flag true, and fails with
  \<open>InactiveSubscriptionError\<close> exactly when there is one and the first of them has not;
  the two errors are different, and validation changes neither the store nor the session.
  For a user with at most one row, validation succeeds exactly when the store holds a row
  for the user whose active flag is true.
\<close>

theorem validate_subscription_first_row:
  "(snd (validate_subscription w uid) = Inl NoSubscriptionError \<longleftrightarrow>
      filter (\<lambda>s. sub_UserID s = uid) (Subscriptions (database w)) = []) \<and>
   (snd (validate_subscription w uid) = Inl NoSubscriptionError \<longleftrightarrow>
      \<not> (\<exists>s. s \<in> set (Subscriptions (database w)) \<and> sub_UserID s = uid)) \<and>
   (snd (validate_subscription w uid) = Inr () \<longleftrightarrow>
      (\<exists>s rest. filter (\<lambda>s. sub_UserID s = uid) (Subscriptions (database w)) = s # rest \<and>
                sub_IsActive s = Some True)) \<and>
   (snd (validate_subscription w uid) = Inl InactiveSubscriptionError \<longleftrightarrow>
      (\<exists>s rest. filter (\<lambda>s. sub_UserID s = uid) (Subscriptions (database w)) = s # rest \<and>
                sub_IsActive s \<noteq> Some True)) \<and>
   NoSubscriptionError \<noteq> InactiveSubscriptionError \<and>
   database (fst (validate_subscription w uid)) = database w \<and>
   session (fst (validate_subscription w uid)) = session w \<and>
   (length (filter (\<lambda>s. sub_UserID s = uid) (Subscriptions (database w))) \<le> 1 \<longrightarrow>
      (snd (validate_subscription w uid) = Inr () \<longleftrightarrow>
         (\<exists>s. s \<in> set (Subscriptions (database w)) \<and> sub_UserID s = uid \<and>
              sub_IsActive s = Some True)))"
proof -
  let ?rows = "filter (\<lambda>s. sub_UserID s = uid) (Subscriptions (database w))"
  note r = validate_subscription_result[of w uid]
  have none: "(?rows = []) = (\<not> (\<exists>s. s \<in> set (Subscriptions (database w)) \<and> sub_UserID s = uid))"
    by (auto simp: filter_empty_conv)
  have one: "length ?rows \<le> 1 \<Longrightarrow>
      (\<exists>s rest. ?rows = s # rest \<and> sub_IsActive s = Some True) =
      (\<exists>s. s \<in> set (Subscriptions (database w)) \<and> sub_UserID s = uid \<and> sub_IsActive s = Some True)"
  proof -
    assume le: "length ?rows \<le> 1"
    define rows where "rows = ?rows"
    have mem: "(\<exists>s. s \<in> set (Subscriptions (database w)) \<and> sub_UserID s = uid \<and>
                   sub_IsActive s = Some True) =
               (\<exists>s. s \<in> set rows \<and> sub_IsActive s = Some True)"
      by (auto simp: rows_def)
    from le have "length rows \<le> 1"
      by (simp add: rows_def)
    then have "(\<exists>s rest. rows = s # rest \<and> sub_IsActive s = Some True) =
               (\<exists>s. s \<in> set rows \<and> sub_IsActive s = Some True)"
      by (cases rows) auto
    with mem show ?thesis
      by (simp add: rows_def)
  qed
  have a: "snd (validate_subscription w uid) = Inl NoSubscriptionError \<longleftrightarrow> ?rows = []"
    unfolding r using gate_errors_distinct by (auto split: list.splits)
  have b: "snd (validate_subscription w uid) = Inr () \<longleftrightarrow>
      (\<exists>s rest. ?rows = s # rest \<and> sub_IsActive s = Some True)"
    unfolding r by (auto split: list.splits)
  have c: "snd (validate_subscription w uid) = Inl InactiveSubscriptionError \<longleftrightarrow>
      (\<exists>s rest. ?rows = s # rest \<and> sub_IsActive s \<noteq> Some True)"
    unfolding r using gate_errors_distinct by (auto split: list.splits)
  show ?thesis
    using a b c none one gate_errors_distinct validate_subscription_state[of w uid] by simp
qed

theorem validate_subscription_first_row_witness:
  "length (filter (\<lambda>s. sub_UserID s = 1) (Subscriptions (database (ex_world None)))) \<le> 1 \<and>
   ex_sub_ann \<in> set (Subscriptions (database (ex_world None))) \<and>
   sub_UserID ex_sub_ann = 1 \<and> sub_IsActive ex_sub_ann = Some True \<and>
   snd (validate_subscription (ex_world None) 1) = Inr ()"
proof -
  have h: "length (filter (\<lambda>s. sub_UserID s = 1) (Subscriptions (database (ex_world None)))) \<le> 1"
    by (simp add: ex_world_def ex_store_def ex_sub_ann_def ex_sub_bob_def)
  have m: "ex_sub_ann \<in> set (Subscriptions (database (ex_world None)))"
    "sub_UserID ex_sub_ann = 1" "sub_IsActive ex_sub_ann = Some True"
    by (simp_all add: ex_world_def ex_store_def ex_sub_ann_def)
  from validate_subscription_first_row[of "ex_world None" 1] h m
  have "snd (validate_subscription (ex_world None) 1) = Inr ()"
    by blast
  with h m show ?thesis by simp
qed

text \<open>
  A store with two rows for user 5, the first cancelled and the second active: a row for
  the user exists whose active flag is true, and validation fails with
  \<open>InactiveSubscriptionError\<close>.
\<close>

theorem validate_subscription_two_rows_counterexample:
  "ex_sub_eve_new \<in> set (Subscriptions (database ex_world_two_rows)) \<and>
   sub_UserID ex_sub_eve_new = 5 \<and> sub_IsActive ex_sub_eve_new = Some True \<and>
   snd (validate_subscription ex_world_two_rows 5) = Inl InactiveSubscriptionError \<and>
   snd (validate_subscription ex_world_two_rows 5) \<noteq> Inr ()"
  by (simp add: validate_subscription_result ex_world_two_rows_def ex_sub_eve_old_def
      ex_sub_eve_new_def)

section \<open>Calendar arithmetic\<close>

lemma timedelta_hours_1: "timedelta_hours 1 = \<lparr>days = 0, seconds = 3600, microseconds = 0\<rparr>"
  by (simp add: timedelta_hours_def)

lemma carry_into:
  fixes x k n :: int
  assumes "0 \<le> x" "x < n"
  shows "(x + k * n) mod n = x" "(x + k * n) div n = k"
  using assms by (simp_all add: div_pos_pos_trivial)

lemma datetime_add_hour:
  assumes "valid_datetime t"
  shows "datetime_add t (timedelta_hours 1) =
    (case normalize_y_m_d (year t) (month t) (if hour t = 23 then day t + 1 else day t) of
       Inl e \<Rightarrow> Inl e
     | Inr (y', m', d') \<Rightarrow>
         Inr \<lparr>year = y', month = m', day = d', hour = (if hour t = 23 then 0 else hour t + 1),
              minute = minute t, second = second t, microsecond = microsecond t\<rparr>)"
proof -
  from assms have b: "0 \<le> second t" "second t < 60" "0 \<le> minute t" "minute t < 60"
    "0 \<le> hour t" "hour t < 24" "0 \<le> microsecond t" "microsecond t < 1000000"
    by (simp_all add: valid_datetime_def)
  have us: "(microsecond t + 0) mod 1000000 = microsecond t" "(microsecond t + 0) div 1000000 = 0"
    using b by simp_all
  have s: "(second t + 3600 + 0) mod 60 = second t" "(second t + 3600 + 0) div 60 = 60"
    using carry_into[of "second t" 60 60] b by simp_all
  have mi: "(minute t + 60) mod 60 = minute t" "(minute t + 60) div 60 = 1"
    using carry_into[of "minute t" 60 1] b by simp_all
  have h: "(hour t + 1) mod 24 = (if hour t = 23 then 0 else hour t + 1)"
     "(hour t + 1) div 24 = (if hour t = 23 then 1 else 0)"
    using carry_into[of "hour t + 1" 24 0] carry_into[of 0 24 1] b by (auto split: if_splits)
  have d: "day t + 0 + (if hour t = 23 then 1 else 0) = (if hour t = 23 then day t + 1 else day t)"
    by simp
  show ?thesis
    unfolding datetime_add_def timedelta_hours_1 Let_def timedelta.simps us s mi h d
    by (rule refl)
qed

lemma div_pred:
  fixes y n :: int
  assumes "0 < n"
  shows "y div n = (y - 1) div n + (if y mod n = 0 then 1 else 0)"
proof -
  define q r where q_r_def: "q = y div n" "r = y mod n"
  have yqr: "y = n * q + r" and r: "0 \<le> r" "r < n"
    using assms by (simp_all add: q_r_def)
  show ?thesis
  proof (cases "r = 0")
    case True
    have "y - 1 = n * (q - 1) + (n - 1)"
      using yqr True by (simp add: algebra_simps)
    then have "(y - 1) div n = q - 1"
      using assms by (intro int_div_pos_eq[where r = "n - 1"]) auto
    with True show ?thesis by (simp add: q_r_def[symmetric])
  next
    case False
    have "y - 1 = n * q + (r - 1)"
      using yqr by simp
    then have "(y - 1) div n = q"
      using r False by (intro int_div_pos_eq[where r = "r - 1"]) auto
    with False show ?thesis by (simp add: q_r_def[symmetric])
  qed
qed

lemma days_before_year_next:
  "days_before_year (y + 1) = days_before_year y + (if is_leap y then 366 else 365)"
proof -
  have "(100::int) dvd 400" "(4::int) dvd 100" by simp_all
  then have d: "y mod 400 = 0 \<Longrightarrow> y mod 100 = 0" and e: "y mod 100 = 0 \<Longrightarrow> y mod 4 = 0"
    by (meson dvd_trans mod_eq_0_iff_dvd)+
  have a4: "y div 4 = (y - 1) div 4 + (if y mod 4 = 0 then 1 else 0)" by (rule div_pred) simp
  have a100: "y div 100 = (y - 1) div 100 + (if y mod 100 = 0 then 1 else 0)" by (rule div_pred) simp
  have a400: "y div 400 = (y - 1) div 400 + (if y mod 400 = 0 then 1 else 0)" by (rule div_pred) simp
  have "days_before_year (y + 1) = y * 365 + y div 4 - y div 100 + y div 400"
    by (simp add: days_before_year_def)
  also have "\<dots> = days_before_year y + 365 + (if y mod 4 = 0 then 1 else 0) - (if y mod 100 = 0 then 1 else 0) + (if y mod 400 = 0 then 1 else 0)"
    unfolding days_before_year_def a4 a100 a400 by (simp only: algebra_simps) 
  also have "\<dots> = days_before_year y + (if is_leap y then 366 else 365)"
    using d e unfolding is_leap_def by (cases "y mod 4 = 0"; cases "y mod 100 = 0"; cases "y mod 400 = 0") simp_all
  finally show ?thesis .
qed

lemma ymd_to_ord_next_month:
  assumes "1 \<le> m" "m < 12"
  shows "ymd_to_ord y (m + 1) 1 = ymd_to_ord y m (days_in_month y m) + 1"
proof -
  from assms have "m = 1 \<or> m = 2 \<or> m = 3 \<or> m = 4 \<or> m = 5 \<or> m = 6 \<or> m = 7 \<or> m = 8 \<or> m = 9 \<or> m = 10 \<or> m = 11"
    by arith
  then show ?thesis
    by (elim disjE) (simp_all add: ymd_to_ord_def days_before_month_def days_before_month_common_def days_in_month_def)
qed

lemma ymd_to_ord_next_year:
  "ymd_to_ord (y + 1) 1 1 = ymd_to_ord y 12 31 + 1"
  by (simp add: ymd_to_ord_def days_before_month_def days_before_month_common_def days_before_year_next)

lemma days_in_month_ge: "1 \<le> days_in_month y m"
  by (simp add: days_in_month_def)

lemma days_in_month_12: "days_in_month y 12 = 31"
  by (simp add: days_in_month_def)

lemma normalize_in_range:
  assumes "MINYEAR \<le> y" "y \<le> MAXYEAR" "1 \<le> d" "d \<le> days_in_month y m"
  shows "normalize_y_m_d y m d = Inr (y, m, d)"
  using assms by (simp add: normalize_y_m_d_def Let_def)

lemma normalize_next_month:
  assumes "MINYEAR \<le> y" "y \<le> MAXYEAR" "m < 12"
  shows "normalize_y_m_d y m (days_in_month y m + 1) = Inr (y, m + 1, 1)"
  using assms days_in_month_ge[of y m] by (simp add: normalize_y_m_d_def Let_def)

lemma normalize_next_year:
  assumes "MINYEAR \<le> y" "y < MAXYEAR"
  shows "normalize_y_m_d y 12 32 = Inr (y + 1, 1, 1)"
  using assms by (simp add: normalize_y_m_d_def Let_def days_in_month_12 MINYEAR_def)

lemma normalize_overflow:
  "normalize_y_m_d 9999 12 32 = Inl (OverflowError ''date value out of range'')"
  by (simp add: normalize_y_m_d_def Let_def days_in_month_12 MINYEAR_def MAXYEAR_def)

lemma add_hour_overflow:
  assumes "valid_datetime t" "in_last_hour t"
  shows "datetime_add t (timedelta_hours 1) = Inl (OverflowError ''date value out of range'')"
  using assms(2) by (simp add: datetime_add_hour[OF assms(1)] in_last_hour_def normalize_overflow)

lemma add_hour_ok:
  assumes v: "valid_datetime t" and nl: "\<not> in_last_hour t"
  shows "\<exists>e. datetime_add t (timedelta_hours 1) = Inr e \<and> valid_datetime e \<and>
             datetime_seconds e = datetime_seconds t + 3600 \<and> microsecond e = microsecond t"
proof -
  from v have b: "MINYEAR \<le> year t" "year t \<le> MAXYEAR" "1 \<le> month t" "month t \<le> 12"
    "1 \<le> day t" "day t \<le> days_in_month (year t) (month t)" "0 \<le> hour t" "hour t < 24"
    "0 \<le> minute t" "minute t < 60" "0 \<le> second t" "second t < 60"
    "0 \<le> microsecond t" "microsecond t < 1000000"
    by (simp_all add: valid_datetime_def)
  note add = datetime_add_hour[OF v]
  consider (same) "hour t \<noteq> 23"
    | (day) "hour t = 23" "day t < days_in_month (year t) (month t)"
    | (month) "hour t = 23" "day t = days_in_month (year t) (month t)" "month t < 12"
    | (year) "hour t = 23" "day t = days_in_month (year t) (month t)" "month t = 12"
    using b by force
  then show ?thesis
  proof cases
    case same
    let ?e = "t\<lparr>hour := hour t + 1\<rparr>"
    have "datetime_add t (timedelta_hours 1) = Inr ?e"
      using same by (simp add: add normalize_in_range[OF b(1,2,5,6)])
    moreover have "valid_datetime ?e"
      using v same b by (simp add: valid_datetime_def)
    moreover have "datetime_seconds ?e = datetime_seconds t + 3600"
      by (simp add: datetime_seconds_def algebra_simps)
    ultimately show ?thesis by auto
  next
    case day
    let ?e = "t\<lparr>day := day t + 1, hour := 0\<rparr>"
    have "normalize_y_m_d (year t) (month t) (day t + 1) = Inr (year t, month t, day t + 1)"
      using b day by (intro normalize_in_range) simp_all
    then have "datetime_add t (timedelta_hours 1) = Inr ?e"
      using day by (simp add: add)
    moreover have "valid_datetime ?e"
      using v day b by (simp add: valid_datetime_def)
    moreover have "datetime_seconds ?e = datetime_seconds t + 3600"
      using day by (simp add: datetime_seconds_def ymd_to_ord_def algebra_simps)
    ultimately show ?thesis by auto
  next
    case month
    let ?e = "t\<lparr>month := month t + 1, day := 1, hour := 0\<rparr>"
    have "normalize_y_m_d (year t) (month t) (day t + 1) = Inr (year t, month t + 1, 1)"
      using normalize_next_month[OF b(1,2) month(3)] month(2) by simp
    then have "datetime_add t (timedelta_hours 1) = Inr ?e"
      using month by (simp add: add)
    moreover have "valid_datetime ?e"
      using v month b days_in_month_ge[of "year t" "month t + 1"] by (simp add: valid_datetime_def)
    moreover have "datetime_seconds ?e = datetime_seconds t + 3600"
      using month ymd_to_ord_next_month[OF b(3) month(3), of "year t"]
      by (simp add: datetime_seconds_def algebra_simps)
    ultimately show ?thesis by auto
  next
    case year
    let ?e = "t\<lparr>year := year t + 1, month := 1, day := 1, hour := 0\<rparr>"
    have d31: "day t = 31" using year by (simp add: days_in_month_12)
    have ylt: "year t < MAXYEAR"
      using nl year(1,3) d31 b(2) by (auto simp: in_last_hour_def MAXYEAR_def)
    have "normalize_y_m_d (year t) (month t) (day t + 1) = Inr (year t + 1, 1, 1)"
      using normalize_next_year[OF b(1) ylt] year d31 by simp
    then have "datetime_add t (timedelta_hours 1) = Inr ?e"
      using year by (simp add: add)
    moreover have "valid_datetime ?e"
      using v year b ylt by (simp add: valid_datetime_def days_in_month_def MINYEAR_def)
    moreover have "datetime_seconds ?e = datetime_seconds t + 3600"
      using year d31 ymd_to_ord_next_year[of "year t"]
      by (simp add: datetime_seconds_def algebra_simps)
    ultimately show ?thesis by auto
  qed
qed


section \<open>Properties of the calendar export\<close>

lemma digit_char_is_digit: "is_digit (digit_char n)"
proof -
  have "nat (n mod 10) < length ''0123456789''"
    by simp
  then show ?thesis
    unfolding is_digit_def digit_char_def by (rule nth_mem)
qed

lemma strftime_ics_shape: "timestamp_shape (strftime_ics t)"
  by (simp add: timestamp_shape_def strftime_ics_def pad4_def pad2_def digit_char_is_digit)

text \<open>
  Claim C9, as amended. For every event whose start is a \<^verbatim>\<open>DATETIME\<close> value earlier than
  9999-12-31T23:00:00, the calendar export succeeds; its \<^verbatim>\<open>DTEND\<close> is the start plus exactly
  3600 seconds, \<^verbatim>\<open>DTSTART\<close> and \<^verbatim>\<open>DTEND\<close> are rendered in the shape
  \<^verbatim>\<open>YYYYMMDDTHHMMSSZ\<close>, the body carries \<^verbatim>\<open>UID\<close>, \<^verbatim>\<open>DTSTAMP\<close>, \<^verbatim>\<open>SUMMARY\<close>,
  \<^verbatim>\<open>LOCATION\<close> and \<^verbatim>\<open>DESCRIPTION\<close>, and the attachment is named \<^verbatim>\<open>event_<id>.ics\<close>.
\<close>

theorem event_ics_export:
  assumes "select_event_by_id d (int event_id) = Some row"
    and "sql_datetime (EventDateTime row)"
    and "\<not> in_last_hour (EventDateTime row)"
  shows "\<exists>end_time.
    datetime_add (EventDateTime row) (timedelta_hours 1) = Inr end_time \<and>
    valid_datetime end_time \<and>
    datetime_seconds end_time = datetime_seconds (EventDateTime row) + 3600 \<and>
    timestamp_shape (strftime_ics (EventDateTime row)) \<and>
    timestamp_shape (strftime_ics end_time) \<and>
    event_ics fromisoformat utcnow d event_id =
      Inr (Calendar
        (''BEGIN:VCALENDAR'' @ nl @ ''VERSION:2.0'' @ nl @ ''PRODID:-//CCN//EN'' @ nl @
         ''BEGIN:VEVENT'' @ nl @
         ''UID:'' @ str_nat event_id @ ''@ccn'' @ nl @
         ''DTSTAMP:'' @ strftime_ics utcnow @ nl @
         ''DTSTART:'' @ strftime_ics (EventDateTime row) @ nl @
         ''DTEND:'' @ strftime_ics end_time @ nl @
         ''SUMMARY:'' @ Title row @ nl @
         ''LOCATION:'' @ Location row @ nl @
         ''DESCRIPTION:'' @ format_opt (Description row) @ nl @
         ''END:VEVENT'' @ nl @ ''END:VCALENDAR'' @ nl)
        [(''Content-Type'', ''text/calendar''),
         (''Content-Disposition'',
          ''attachment; filename='' @ dquote @ ''event_'' @ str_nat event_id @ ''.ics'' @ dquote)])"
proof -
  from assms(2) have v: "valid_datetime (EventDateTime row)"
    by (simp add: sql_datetime_def)
  from add_hour_ok[OF v assms(3)] obtain e where
    e: "datetime_add (EventDateTime row) (timedelta_hours 1) = Inr e" "valid_datetime e"
       "datetime_seconds e = datetime_seconds (EventDateTime row) + 3600"
    by blast
  have "event_ics fromisoformat utcnow d event_id =
      Inr (Calendar
        (''BEGIN:VCALENDAR'' @ nl @ ''VERSION:2.0'' @ nl @ ''PRODID:-//CCN//EN'' @ nl @
         ''BEGIN:VEVENT'' @ nl @
         ''UID:'' @ str_nat event_id @ ''@ccn'' @ nl @
         ''DTSTAMP:'' @ strftime_ics utcnow @ nl @
         ''DTSTART:'' @ strftime_ics (EventDateTime row) @ nl @
         ''DTEND:'' @ strftime_ics e @ nl @
         ''SUMMARY:'' @ Title row @ nl @
         ''LOCATION:'' @ Location row @ nl @
         ''DESCRIPTION:'' @ format_opt (Description row) @ nl @
         ''END:VEVENT'' @ nl @ ''END:VCALENDAR'' @ nl)
        [(''Content-Type'', ''text/calendar''),
         (''Content-Disposition'',
          ''attachment; filename='' @ dquote @ ''event_'' @ str_nat event_id @ ''.ics'' @ dquote)])"
    unfolding event_ics_def
    by (simp add: assms(1) e(1) dict_of_event_def parse_if_str_def Let_def del: str_nat.simps)
  with e strftime_ics_shape show ?thesis by blast
qed

text \<open>
  The export of the event that starts at 2025-03-01T10:00:00: \<^verbatim>\<open>DTSTART:20250301T100000Z\<close>
  and \<^verbatim>\<open>DTEND:20250301T110000Z\<close>.
\<close>

theorem event_ics_export_witness:
  "select_event_by_id ex_store (int 7) = Some (hd ex_events) \<and>
   sql_datetime (EventDateTime (hd ex_events)) \<and>
   \<not> in_last_hour (EventDateTime (hd ex_events)) \<and>
   EventDateTime (hd ex_events) =
     \<lparr>year = 2025, month = 3, day = 1, hour = 10, minute = 0, second = 0, microsecond = 0\<rparr> \<and>
   event_ics ex_fromisoformat ex_start ex_store 7 =
      Inr (Calendar
        (''BEGIN:VCALENDAR'' @ nl @ ''VERSION:2.0'' @ nl @ ''PRODID:-//CCN//EN'' @ nl @
         ''BEGIN:VEVENT'' @ nl @
         ''UID:7@ccn'' @ nl @
         ''DTSTAMP:20250301T100000Z'' @ nl @
         ''DTSTART:20250301T100000Z'' @ nl @
         ''DTEND:20250301T110000Z'' @ nl @
         ''SUMMARY:Talk'' @ nl @
         ''LOCATION:Zoom'' @ nl @
         ''DESCRIPTION:Abstract'' @ nl @
         ''END:VEVENT'' @ nl @ ''END:VCALENDAR'' @ nl)
        [(''Content-Type'', ''text/calendar''),
         (''Content-Disposition'', ''attachment; filename='' @ dquote @ ''event_7.ics'' @ dquote)])"
proof -
  have h1: "select_event_by_id ex_store (int 7) = Some (hd ex_events)"
    by (simp add: select_event_by_id_def ex_store_def ex_events_def)
  have st: "EventDateTime (hd ex_events) = ex_start"
    by (simp add: ex_events_def)
  have h2: "sql_datetime (EventDateTime (hd ex_events))"
    by (simp add: st ex_start_def sql_datetime_def valid_datetime_def MINYEAR_def MAXYEAR_def
        days_in_month_def)
  have h3: "\<not> in_last_hour (EventDateTime (hd ex_events))"
    by (simp add: st ex_start_def in_last_hour_def)
  have add: "datetime_add ex_start (timedelta_hours 1) = Inr (ex_start\<lparr>hour := 11\<rparr>)"
    by (simp add: datetime_add_def timedelta_hours_def ex_start_def normalize_y_m_d_def
        days_in_month_def MINYEAR_def MAXYEAR_def Let_def)
  from event_ics_export[OF h1 h2 h3, of ex_fromisoformat ex_start]
  obtain e where e: "datetime_add (EventDateTime (hd ex_events)) (timedelta_hours 1) = Inr e"
    and r: "event_ics ex_fromisoformat ex_start ex_store 7 =
      Inr (Calendar
        (''BEGIN:VCALENDAR'' @ nl @ ''VERSION:2.0'' @ nl @ ''PRODID:-//CCN//EN'' @ nl @
         ''BEGIN:VEVENT'' @ nl @
         ''UID:'' @ str_nat 7 @ ''@ccn'' @ nl @
         ''DTSTAMP:'' @ strftime_ics ex_start @ nl @
         ''DTSTART:'' @ strftime_ics (EventDateTime (hd ex_events)) @ nl @
         ''DTEND:'' @ strftime_ics e @ nl @
         ''SUMMARY:'' @ Title (hd ex_events) @ nl @
         ''LOCATION:'' @ Location (hd ex_events) @ nl @
         ''DESCRIPTION:'' @ format_opt (Description (hd ex_events)) @ nl @
         ''END:VEVENT'' @ nl @ ''END:VCALENDAR'' @ nl)
        [(''Content-Type'', ''text/calendar''),
         (''Content-Disposition'',
          ''attachment; filename='' @ dquote @ ''event_'' @ str_nat 7 @ ''.ics'' @ dquote)])"
    by blast
  from e add have e_eq: "e = ex_start\<lparr>hour := 11\<rparr>"
    by (simp add: st)
  have fmt: "strftime_ics ex_start = ''20250301T100000Z''"
    "strftime_ics (ex_start\<lparr>hour := 11\<rparr>) = ''20250301T110000Z''"
    by (simp_all add: strftime_ics_def ex_start_def pad4_def pad2_def digit_char_def)
  have row: "Title (hd ex_events) = ''Talk''" "Location (hd ex_events) = ''Zoom''"
    "format_opt (Description (hd ex_events)) = ''Abstract''"
    by (simp_all add: ex_events_def format_opt_def)
  have s7: "str_nat 7 = ''7''"
    by (simp add: digit_char_def)
  show ?thesis
    using h1 h2 h3 r unfolding e_eq st fmt row s7
    by (simp add: ex_start_def)
qed

text \<open>
  An event that starts at 9999-12-31T23:30:00 has no export: adding the hour leaves the
  years a datetime can hold, and the handler fails with \<^verbatim>\<open>OverflowError\<close>.
\<close>

theorem event_ics_last_hour_counterexample:
  "select_event_by_id ex_store (int 8) \<noteq> None \<and>
   event_ics ex_fromisoformat ex_start ex_store 8 = Inl (OverflowError ''date value out of range'')"
  by (simp add: event_ics_def select_event_by_id_def ex_store_def ex_events_def dict_of_event_def
      parse_if_str_def ex_late_def datetime_add_def timedelta_hours_def normalize_y_m_d_def
      days_in_month_def MINYEAR_def MAXYEAR_def Let_def)

section \<open>Properties of the subscription transitions\<close>

lemma find_map_preserved:
  assumes "\<And>x. P (g x) = P x"
  shows "find P (map g xs) = map_option g (find P xs)"
  using assms by (induction xs) simp_all

lemma select_by_user_after_update:
  assumes "\<And>s. sub_UserID (f s) = sub_UserID s"
  shows "select_subscription_by_user (update_subscription d sid f) uid =
         map_option (\<lambda>s. if SubscriptionID s = sid then f s else s)
           (select_subscription_by_user d uid)"
  unfolding select_subscription_by_user_def update_subscription_def
  by (simp add: find_map_preserved assms)

lemma select_by_user_insert_payment [simp]:
  "select_subscription_by_user (insert_payment d uid') uid = select_subscription_by_user d uid"
  by (simp add: select_subscription_by_user_def insert_payment_def)

lemma my_subscription_upgrade:
  assumes "session w = Some cu"
    and "select_subscription_by_user (database w) (user_id cu) = Some sub"
    and "form ''action'' = Some ''upgrade''"
  shows "my_subscription w POST form =
           (w\<lparr>database := update_subscription (insert_payment (database w) (user_id cu))
                              (SubscriptionID sub) set_upgrade,
              calls := calls w @ [Call_redirect ''my_subscription'']\<rparr>,
            Inr (Redirect ''my_subscription''))"
  using assms by (simp add: my_subscription_def current_user_def redirect_def Let_def)

lemma my_subscription_cancel:
  assumes "session w = Some cu"
    and "select_subscription_by_user (database w) (user_id cu) = Some sub"
    and "form ''action'' = Some ''cancel''"
  shows "my_subscription w POST form =
           (w\<lparr>database := update_subscription (database w) (SubscriptionID sub) set_inactive,
              calls := calls w @ [Call_redirect ''my_subscription'']\<rparr>,
            Inr (Redirect ''my_subscription''))"
  using assms by (simp add: my_subscription_def current_user_def redirect_def Let_def)

lemma payments_after_upgrade:
  "Payments (update_subscription (insert_payment d uid) sid f) =
     Payments d @ [\<lparr>PaymentID = next_PaymentID d, pay_UserID = uid, PaymentDate = GETDATE d,
                    pay_Amount = 99.99, PaymentStatus = ''Completed'', PaymentMethod = ''PayPal''\<rparr>]"
  by (simp add: update_subscription_def insert_payment_def)

text \<open>
  Claim C4. The upgrade action asks nothing of the current subscription: for every
  subscription row fetched for the logged-in user, whatever its level and its active flag,
  posting \<^verbatim>\<open>action=upgrade\<close> sets the row to level Paid, active, amount 99.99 and appends
  one payment of 99.99; a cancelled subscription is reactivated and a Paid one charged again.
\<close>

theorem upgrade_unconditional:
  assumes "session w = Some cu"
    and "select_subscription_by_user (database w) (user_id cu) = Some sub"
    and "form ''action'' = Some ''upgrade''"
  shows "snd (my_subscription w POST form) = Inr (Redirect ''my_subscription'') \<and>
    select_subscription_by_user (database (fst (my_subscription w POST form))) (user_id cu) =
      Some (sub\<lparr>SubscriptionLevel := Some ''Paid'', Amount := Some 99.99,
                 sub_IsActive := Some True\<rparr>) \<and>
    Payments (database (fst (my_subscription w POST form))) =
      Payments (database w) @
        [\<lparr>PaymentID = next_PaymentID (database w), pay_UserID = user_id cu,
          PaymentDate = GETDATE (database w), pay_Amount = 99.99,
          PaymentStatus = ''Completed'', PaymentMethod = ''PayPal''\<rparr>]"
proof -
  have "select_subscription_by_user
          (update_subscription (insert_payment (database w) (user_id cu)) (SubscriptionID sub) set_upgrade)
          (user_id cu) = Some (set_upgrade sub)"
    by (subst select_by_user_after_update) (simp_all add: set_upgrade_def assms(2))
  moreover note my_subscription_upgrade[of w cu sub form, OF assms]
  ultimately show ?thesis
    by (simp add: payments_after_upgrade set_upgrade_def)
qed


lemma my_subscription_upgrade_row:
  assumes "session w = Some cu"
    and "select_subscription_by_user (database w) (user_id cu) = Some sub"
    and "form ''action'' = Some ''upgrade''"
  shows "select_subscription_by_user (database (fst (my_subscription w POST form))) (user_id cu) =
           Some (set_upgrade sub)"
proof -
  have "select_subscription_by_user
          (update_subscription (insert_payment (database w) (user_id cu)) (SubscriptionID sub) set_upgrade)
          (user_id cu) = Some (set_upgrade sub)"
    by (subst select_by_user_after_update) (simp_all add: set_upgrade_def assms(2))
  then show ?thesis
    by (simp add: my_subscription_upgrade[of w cu sub form, OF assms])
qed

lemma my_subscription_cancel_row:
  assumes "session w = Some cu"
    and "select_subscription_by_user (database w) (user_id cu) = Some sub"
    and "form ''action'' = Some ''cancel''"
  shows "select_subscription_by_user (database (fst (my_subscription w POST form))) (user_id cu) =
           Some (set_inactive sub)"
proof -
  have "select_subscription_by_user
          (update_subscription (database w) (SubscriptionID sub) set_inactive)
          (user_id cu) = Some (set_inactive sub)"
    by (subst select_by_user_after_update) (simp_all add: set_inactive_def assms(2))
  then show ?thesis
    by (simp add: my_subscription_cancel[of w cu sub form, OF assms])
qed

text \<open>
  Claim C3. For a logged-in user whose subscription row is active: if its level is Free,
  the upgrade action leaves the row at level Paid, active, with amount 99.99, and appends
  exactly one payment, of the fixed amount 99.99; the cancel action sets the active flag
  to false and leaves the level, the amount and the payments as they were.
\<close>

theorem upgrade_free_and_cancel_active:
  assumes "session w = Some cu"
    and "select_subscription_by_user (database w) (user_id cu) = Some sub"
    and "sub_IsActive sub = Some True"
  shows "(SubscriptionLevel sub = Some ''Free'' \<and> form ''action'' = Some ''upgrade'' \<longrightarrow>
      (\<exists>sub' p. select_subscription_by_user (database (fst (my_subscription w POST form)))
                  (user_id cu) = Some sub' \<and>
         SubscriptionLevel sub' = Some ''Paid'' \<and> sub_IsActive sub' = Some True \<and>
         Amount sub' = Some 99.99 \<and> frame_fields sub' = frame_fields sub \<and>
         Payments (database (fst (my_subscription w POST form))) = Payments (database w) @ [p] \<and>
         pay_Amount p = 99.99 \<and> pay_UserID p = user_id cu)) \<and>
    (form ''action'' = Some ''cancel'' \<longrightarrow>
      (\<exists>sub'. select_subscription_by_user (database (fst (my_subscription w POST form)))
                (user_id cu) = Some sub' \<and>
         sub_IsActive sub' = Some False \<and> SubscriptionLevel sub' = SubscriptionLevel sub \<and>
         Amount sub' = Amount sub \<and> frame_fields sub' = frame_fields sub \<and>
         Payments (database (fst (my_subscription w POST form))) = Payments (database w)))"
proof (intro conjI impI)
  assume a: "SubscriptionLevel sub = Some ''Free'' \<and> form ''action'' = Some ''upgrade''"
  then have up: "form ''action'' = Some ''upgrade''" by simp
  show "\<exists>sub' p. select_subscription_by_user (database (fst (my_subscription w POST form)))
                  (user_id cu) = Some sub' \<and>
         SubscriptionLevel sub' = Some ''Paid'' \<and> sub_IsActive sub' = Some True \<and>
         Amount sub' = Some 99.99 \<and> frame_fields sub' = frame_fields sub \<and>
         Payments (database (fst (my_subscription w POST form))) = Payments (database w) @ [p] \<and>
         pay_Amount p = 99.99 \<and> pay_UserID p = user_id cu"
    using my_subscription_upgrade_row[of w cu sub form, OF assms(1,2) up]
      my_subscription_upgrade[of w cu sub form, OF assms(1,2) up]
    by (simp add: set_upgrade_def frame_fields_def payments_after_upgrade)
next
  assume ca: "form ''action'' = Some ''cancel''"
  show "\<exists>sub'. select_subscription_by_user (database (fst (my_subscription w POST form)))
                (user_id cu) = Some sub' \<and>
         sub_IsActive sub' = Some False \<and> SubscriptionLevel sub' = SubscriptionLevel sub \<and>
         Amount sub' = Amount sub \<and> frame_fields sub' = frame_fields sub \<and>
         Payments (database (fst (my_subscription w POST form))) = Payments (database w)"
    using my_subscription_cancel_row[of w cu sub form, OF assms(1,2) ca]
      my_subscription_cancel[of w cu sub form, OF assms(1,2) ca]
    by (simp add: set_inactive_def frame_fields_def update_subscription_def)
qed

lemma ex_select_ann: "select_subscription_by_user ex_store 1 = Some ex_sub_ann"
  by (simp add: select_subscription_by_user_def ex_store_def ex_sub_ann_def)

lemma ex_select_bob: "select_subscription_by_user ex_store 3 = Some ex_sub_bob"
  by (simp add: select_subscription_by_user_def ex_store_def ex_sub_ann_def ex_sub_bob_def)


lemma my_subscription_database:
  "database (fst (my_subscription w m form)) = database w \<or>
   (\<exists>uid sid. form ''action'' = Some ''upgrade'' \<and>
      database (fst (my_subscription w m form)) =
        update_subscription (insert_payment (database w) uid) sid set_upgrade) \<or>
   (\<exists>sid. database (fst (my_subscription w m form)) =
        update_subscription (database w) sid set_inactive)"
  by (auto simp: my_subscription_def redirect_def Let_def split: option.splits sum.splits)

lemma admin_subscriptions_database:
  "database (fst (admin_subscriptions sql_int w m form)) = database w \<or>
   (\<exists>sid f. (f = set_inactive \<or> f = set_active \<or> f = set_refund) \<and>
      database (fst (admin_subscriptions sql_int w m form)) =
        update_subscription (database w) sid f)"
  by (auto simp: admin_subscriptions_def redirect_def Let_def split: option.splits sum.splits)

lemma frame_fields_set [simp]:
  "frame_fields (set_upgrade s) = frame_fields s"
  "frame_fields (set_inactive s) = frame_fields s"
  "frame_fields (set_active s) = frame_fields s"
  "frame_fields (set_refund s) = frame_fields s"
  by (simp_all add: frame_fields_def set_upgrade_def set_inactive_def set_active_def set_refund_def)

lemma level_set [simp]:
  "SubscriptionLevel (set_upgrade s) = Some ''Paid''"
  "SubscriptionLevel (set_inactive s) = SubscriptionLevel s"
  "SubscriptionLevel (set_active s) = SubscriptionLevel s"
  "SubscriptionLevel (set_refund s) = SubscriptionLevel s"
  by (simp_all add: set_upgrade_def set_inactive_def set_active_def set_refund_def)

lemma map_after_update:
  assumes "\<And>s. g (f s) = g s"
  shows "map g (Subscriptions (update_subscription d sid f)) = map g (Subscriptions d)"
  by (simp add: update_subscription_def assms cong: map_cong)

lemma subscriptions_insert_payment [simp]:
  "Subscriptions (insert_payment d uid) = Subscriptions d"
  by (simp add: insert_payment_def)

lemma paid_stays_paid_update:
  assumes "\<And>s. SubscriptionLevel s = Some ''Paid'' \<Longrightarrow> SubscriptionLevel (f s) = Some ''Paid''"
  shows "list_all2 (\<lambda>s s'. SubscriptionLevel s = Some ''Paid'' \<longrightarrow> SubscriptionLevel s' = Some ''Paid'')
           (Subscriptions d) (Subscriptions (update_subscription d sid f))"
  by (simp add: update_subscription_def list_all2_map2 list_all2_same assms)

lemma my_subscription_frame:
  "map frame_fields (Subscriptions (database (fst (my_subscription w m form)))) =
   map frame_fields (Subscriptions (database w))"
  using my_subscription_database[of w m form]
  by (elim disjE exE conjE) (simp_all add: map_after_update)

lemma admin_subscriptions_frame:
  "map frame_fields (Subscriptions (database (fst (admin_subscriptions sql_int w m form)))) =
   map frame_fields (Subscriptions (database w))"
  using admin_subscriptions_database[of sql_int w m form]
  by (elim disjE exE conjE) (simp_all add: map_after_update)

lemma admin_subscriptions_level:
  "map SubscriptionLevel (Subscriptions (database (fst (admin_subscriptions sql_int w m form)))) =
   map SubscriptionLevel (Subscriptions (database w))"
  using admin_subscriptions_database[of sql_int w m form]
  by (elim disjE exE conjE) (simp_all add: map_after_update)

lemma my_subscription_level:
  assumes "form ''action'' \<noteq> Some ''upgrade''"
  shows "map SubscriptionLevel (Subscriptions (database (fst (my_subscription w m form)))) =
         map SubscriptionLevel (Subscriptions (database w))"
  using my_subscription_database[of w m form] assms
  by (elim disjE exE conjE) (simp_all add: map_after_update)

lemma my_subscription_paid:
  "list_all2 (\<lambda>s s'. SubscriptionLevel s = Some ''Paid'' \<longrightarrow> SubscriptionLevel s' = Some ''Paid'')
     (Subscriptions (database w)) (Subscriptions (database (fst (my_subscription w m form))))"
proof -
  have same: "list_all2 (\<lambda>s s'. SubscriptionLevel s = Some ''Paid'' \<longrightarrow> SubscriptionLevel s' = Some ''Paid'')
     (Subscriptions d) (Subscriptions d)" for d
    by (simp add: list_all2_same)
  have up: "list_all2 (\<lambda>s s'. SubscriptionLevel s = Some ''Paid'' \<longrightarrow> SubscriptionLevel s' = Some ''Paid'')
     (Subscriptions d) (Subscriptions (update_subscription (insert_payment d uid) sid set_upgrade))"
    for d uid sid
    using paid_stays_paid_update[of set_upgrade "insert_payment d uid" sid] by simp
  have ina: "list_all2 (\<lambda>s s'. SubscriptionLevel s = Some ''Paid'' \<longrightarrow> SubscriptionLevel s' = Some ''Paid'')
     (Subscriptions d) (Subscriptions (update_subscription d sid set_inactive))" for d sid
    using paid_stays_paid_update[of set_inactive d sid] by simp
  show ?thesis
    using my_subscription_database[of w m form]
    by (elim disjE exE conjE) (simp_all add: same up ina)
qed

text \<open>
  Claim C5, as amended. No request to the two subscription handlers, so none of upgrade,
  cancel, admin activate, deactivate and refund, changes the id, user, start date or
  transaction id of any subscription row, and none turns a Paid row into anything but a
  Paid row. The admin actions and every user action but upgrade leave every level as it
  was. Cancel changes the active field of the user's row and nothing else; upgrade is the
  one transition that writes the level, setting it to Paid together with amount and
  active.
\<close>

theorem subscription_transitions_frame:
  "map frame_fields (Subscriptions (database (fst (my_subscription w m form)))) =
     map frame_fields (Subscriptions (database w)) \<and>
   map frame_fields (Subscriptions (database (fst (admin_subscriptions sql_int w m form)))) =
     map frame_fields (Subscriptions (database w)) \<and>
   map SubscriptionLevel (Subscriptions (database (fst (admin_subscriptions sql_int w m form)))) =
     map SubscriptionLevel (Subscriptions (database w)) \<and>
   (form ''action'' \<noteq> Some ''upgrade'' \<longrightarrow>
      map SubscriptionLevel (Subscriptions (database (fst (my_subscription w m form)))) =
        map SubscriptionLevel (Subscriptions (database w))) \<and>
   list_all2 (\<lambda>s s'. SubscriptionLevel s = Some ''Paid'' \<longrightarrow> SubscriptionLevel s' = Some ''Paid'')
     (Subscriptions (database w)) (Subscriptions (database (fst (my_subscription w m form)))) \<and>
   (session w = Some cu \<and> select_subscription_by_user (database w) (user_id cu) = Some sub \<and>
    form ''action'' = Some ''cancel'' \<longrightarrow>
      select_subscription_by_user (database (fst (my_subscription w POST form))) (user_id cu) =
        Some (sub\<lparr>sub_IsActive := Some False\<rparr>)) \<and>
   (session w = Some cu \<and> select_subscription_by_user (database w) (user_id cu) = Some sub \<and>
    form ''action'' = Some ''upgrade'' \<longrightarrow>
      select_subscription_by_user (database (fst (my_subscription w POST form))) (user_id cu) =
        Some (sub\<lparr>SubscriptionLevel := Some ''Paid'', Amount := Some 99.99,
                   sub_IsActive := Some True\<rparr>))"
proof (intro conjI impI)
  assume "session w = Some cu \<and> select_subscription_by_user (database w) (user_id cu) = Some sub \<and>
    form ''action'' = Some ''cancel''"
  then show "select_subscription_by_user (database (fst (my_subscription w POST form))) (user_id cu) =
        Some (sub\<lparr>sub_IsActive := Some False\<rparr>)"
    using my_subscription_cancel_row[of w cu sub form] by (simp add: set_inactive_def)
next
  assume "session w = Some cu \<and> select_subscription_by_user (database w) (user_id cu) = Some sub \<and>
    form ''action'' = Some ''upgrade''"
  then show "select_subscription_by_user (database (fst (my_subscription w POST form))) (user_id cu) =
        Some (sub\<lparr>SubscriptionLevel := Some ''Paid'', Amount := Some 99.99,
                   sub_IsActive := Some True\<rparr>)"
    using my_subscription_upgrade_row[of w cu sub form] by (simp add: set_upgrade_def)
qed (simp_all add: my_subscription_frame admin_subscriptions_frame admin_subscriptions_level
      my_subscription_level my_subscription_paid)

lemma ex_world_simps [simp]:
  "database (ex_world s) = ex_store" "session (ex_world s) = s" "calls (ex_world s) = []"
  by (simp_all add: ex_world_def)

theorem upgrade_free_and_cancel_active_witness:
  "session (ex_world (Some ex_session_ann)) = Some ex_session_ann \<and>
   select_subscription_by_user (database (ex_world (Some ex_session_ann))) (user_id ex_session_ann) =
     Some ex_sub_ann \<and>
   sub_IsActive ex_sub_ann = Some True \<and>
   SubscriptionLevel ex_sub_ann = Some ''Free'' \<and>
   ex_form_upgrade ''action'' = Some ''upgrade'' \<and>
   ex_form_cancel ''action'' = Some ''cancel'' \<and>
   map_option SubscriptionLevel
     (select_subscription_by_user
        (database (fst (my_subscription (ex_world (Some ex_session_ann)) POST ex_form_upgrade))) 1) =
     Some (Some ''Paid'') \<and>
   map pay_Amount
     (Payments (database (fst (my_subscription (ex_world (Some ex_session_ann)) POST ex_form_upgrade)))) =
     [99.99] \<and>
   map_option sub_IsActive
     (select_subscription_by_user
        (database (fst (my_subscription (ex_world (Some ex_session_ann)) POST ex_form_cancel))) 1) =
     Some (Some False)"
proof -
  let ?w = "ex_world (Some ex_session_ann)"
  have h1: "session ?w = Some ex_session_ann" by simp
  have uid: "user_id ex_session_ann = 1" by (simp add: ex_session_ann_def)
  have h2: "select_subscription_by_user (database ?w) (user_id ex_session_ann) = Some ex_sub_ann"
    by (simp add: uid ex_select_ann)
  have h3: "sub_IsActive ex_sub_ann = Some True" by (simp add: ex_sub_ann_def)
  have h4: "SubscriptionLevel ex_sub_ann = Some ''Free''" by (simp add: ex_sub_ann_def)
  have h5: "ex_form_upgrade ''action'' = Some ''upgrade''" by (simp add: ex_form_upgrade_def)
  have h6: "ex_form_cancel ''action'' = Some ''cancel''" by (simp add: ex_form_cancel_def)
  have p0: "Payments (database ?w) = []" by (simp add: ex_store_def)
  from upgrade_free_and_cancel_active[OF h1 h2 h3, of ex_form_upgrade] h4 h5
  have up: "map_option SubscriptionLevel
     (select_subscription_by_user (database (fst (my_subscription ?w POST ex_form_upgrade))) 1) =
     Some (Some ''Paid'')"
    "map pay_Amount (Payments (database (fst (my_subscription ?w POST ex_form_upgrade)))) = [99.99]"
    unfolding uid p0 by auto
  from upgrade_free_and_cancel_active[OF h1 h2 h3, of ex_form_cancel] h6
  have ca: "map_option sub_IsActive
     (select_subscription_by_user (database (fst (my_subscription ?w POST ex_form_cancel))) 1) =
     Some (Some False)"
    unfolding uid by auto
  from h1 h2 h3 h4 h5 h6 up ca show ?thesis by blast
qed

theorem upgrade_unconditional_witness:
  "session (ex_world (Some ex_session_bob)) = Some ex_session_bob \<and>
   select_subscription_by_user (database (ex_world (Some ex_session_bob))) (user_id ex_session_bob) =
     Some ex_sub_bob \<and>
   SubscriptionLevel ex_sub_bob = Some ''Paid'' \<and> sub_IsActive ex_sub_bob = Some False \<and>
   ex_form_upgrade ''action'' = Some ''upgrade'' \<and>
   snd (my_subscription (ex_world (Some ex_session_bob)) POST ex_form_upgrade) =
     Inr (Redirect ''my_subscription'') \<and>
   select_subscription_by_user
     (database (fst (my_subscription (ex_world (Some ex_session_bob)) POST ex_form_upgrade))) 3 =
     Some (ex_sub_bob\<lparr>sub_IsActive := Some True\<rparr>) \<and>
   map pay_Amount
     (Payments (database (fst (my_subscription (ex_world (Some ex_session_bob)) POST ex_form_upgrade)))) =
     [99.99]"
proof -
  let ?w = "ex_world (Some ex_session_bob)"
  have h1: "session ?w = Some ex_session_bob" by simp
  have uid: "user_id ex_session_bob = 3" by (simp add: ex_session_bob_def)
  have h2: "select_subscription_by_user (database ?w) (user_id ex_session_bob) = Some ex_sub_bob"
    by (simp add: uid ex_select_bob)
  have h3: "ex_form_upgrade ''action'' = Some ''upgrade''" by (simp add: ex_form_upgrade_def)
  have row: "SubscriptionLevel ex_sub_bob = Some ''Paid''" "sub_IsActive ex_sub_bob = Some False"
    "ex_sub_bob\<lparr>SubscriptionLevel := Some ''Paid'', Amount := Some 99.99, sub_IsActive := Some True\<rparr>
       = ex_sub_bob\<lparr>sub_IsActive := Some True\<rparr>"
    by (simp_all add: ex_sub_bob_def)
  have p0: "Payments (database ?w) = []" by (simp add: ex_store_def)
  from upgrade_unconditional[of ?w ex_session_bob ex_sub_bob ex_form_upgrade, OF h1 h2 h3] h1 h2 h3 row show ?thesis
    unfolding uid p0 by simp
qed


text \<open>
  Upgrade does change a field other than amount and active: the Free row of the sample
  store comes out at level Paid.
\<close>

theorem upgrade_changes_level_counterexample:
  "session (ex_world (Some ex_session_ann)) = Some ex_session_ann \<and>
   map SubscriptionLevel (Subscriptions (database (ex_world (Some ex_session_ann)))) =
     [Some ''Free'', Some ''Paid''] \<and>
   map SubscriptionLevel
     (Subscriptions (database (fst (my_subscription (ex_world (Some ex_session_ann)) POST
                                      ex_form_upgrade)))) =
     [Some ''Paid'', Some ''Paid'']"
proof -
  let ?w = "ex_world (Some ex_session_ann)"
  have h1: "session ?w = Some ex_session_ann" by simp
  have h2: "select_subscription_by_user (database ?w) (user_id ex_session_ann) = Some ex_sub_ann"
    by (simp add: ex_session_ann_def ex_select_ann)
  have h3: "ex_form_upgrade ''action'' = Some ''upgrade''" by (simp add: ex_form_upgrade_def)
  note my_subscription_upgrade[of ?w ex_session_ann ex_sub_ann ex_form_upgrade, OF h1 h2 h3]
  then show ?thesis
    by (simp add: update_subscription_def insert_payment_def set_upgrade_def ex_store_def
        ex_sub_ann_def ex_sub_bob_def)
qed

theorem subscription_transitions_frame_witness:
  "session (ex_world (Some ex_session_bob)) = Some ex_session_bob \<and>
   select_subscription_by_user (database (ex_world (Some ex_session_bob))) (user_id ex_session_bob) =
     Some ex_sub_bob \<and>
   SubscriptionLevel ex_sub_bob = Some ''Paid'' \<and>
   ex_form_cancel ''action'' = Some ''cancel'' \<and>
   ex_form_cancel ''action'' \<noteq> Some ''upgrade'' \<and>
   map SubscriptionLevel
     (Subscriptions (database (fst (my_subscription (ex_world (Some ex_session_bob)) POST
        ex_form_cancel)))) =
     [Some ''Free'', Some ''Paid''] \<and>
   select_subscription_by_user
     (database (fst (my_subscription (ex_world (Some ex_session_bob)) POST ex_form_cancel))) 3 =
     Some (ex_sub_bob\<lparr>sub_IsActive := Some False\<rparr>) \<and>
   session (ex_world (Some ex_session_ann)) = Some ex_session_ann \<and>
   select_subscription_by_user (database (ex_world (Some ex_session_ann))) (user_id ex_session_ann) =
     Some ex_sub_ann \<and>
   ex_form_upgrade ''action'' = Some ''upgrade'' \<and>
   map_option SubscriptionLevel
     (select_subscription_by_user
        (database (fst (my_subscription (ex_world (Some ex_session_ann)) POST ex_form_upgrade))) 1) =
     Some (Some ''Paid'') \<and>
   map SubscriptionLevel
     (Subscriptions (database (fst (admin_subscriptions ex_sql_int
        (ex_world (Some ex_session_admin)) POST ex_form_refund)))) =
     [Some ''Free'', Some ''Paid'']"
proof -
  let ?wb = "ex_world (Some ex_session_bob)"
  let ?wa = "ex_world (Some ex_session_ann)"
  have b: "session ?wb = Some ex_session_bob"
    "select_subscription_by_user (database ?wb) (user_id ex_session_bob) = Some ex_sub_bob"
    "SubscriptionLevel ex_sub_bob = Some ''Paid''"
    "ex_form_cancel ''action'' = Some ''cancel''" "ex_form_cancel ''action'' \<noteq> Some ''upgrade''"
    by (simp_all add: ex_session_bob_def ex_select_bob ex_sub_bob_def ex_form_cancel_def)
  have a: "session ?wa = Some ex_session_ann"
    "select_subscription_by_user (database ?wa) (user_id ex_session_ann) = Some ex_sub_ann"
    "ex_form_upgrade ''action'' = Some ''upgrade''"
    by (simp_all add: ex_session_ann_def ex_select_ann ex_form_upgrade_def)
  have uid: "user_id ex_session_bob = 3" "user_id ex_session_ann = 1"
    by (simp_all add: ex_session_bob_def ex_session_ann_def)
  have lv: "map SubscriptionLevel (Subscriptions (database (ex_world s))) =
      [Some ''Free'', Some ''Paid'']" for s
    by (simp add: ex_store_def ex_sub_ann_def ex_sub_bob_def)
  note tb = subscription_transitions_frame[where w="?wb" and m=POST and form=ex_form_cancel
      and sql_int=ex_sql_int and cu=ex_session_bob and sub=ex_sub_bob]
  note ta = subscription_transitions_frame[where w="?wa" and m=POST and form=ex_form_upgrade
      and sql_int=ex_sql_int and cu=ex_session_ann and sub=ex_sub_ann]
  note td = subscription_transitions_frame[where w="ex_world (Some ex_session_admin)" and m=POST
      and form=ex_form_refund and sql_int=ex_sql_int and cu=ex_session_admin and sub=ex_sub_bob]
  from tb b have r1: "map SubscriptionLevel
     (Subscriptions (database (fst (my_subscription ?wb POST ex_form_cancel)))) =
     [Some ''Free'', Some ''Paid'']"
    unfolding lv by blast
  from tb b have r2: "select_subscription_by_user
     (database (fst (my_subscription ?wb POST ex_form_cancel))) 3 =
     Some (ex_sub_bob\<lparr>sub_IsActive := Some False\<rparr>)"
    unfolding uid by blast
  from ta a have "select_subscription_by_user
        (database (fst (my_subscription ?wa POST ex_form_upgrade))) 1 =
        Some (ex_sub_ann\<lparr>SubscriptionLevel := Some ''Paid'', Amount := Some 99.99,
                   sub_IsActive := Some True\<rparr>)"
    unfolding uid by blast
  then have r3: "map_option SubscriptionLevel
     (select_subscription_by_user
        (database (fst (my_subscription ?wa POST ex_form_upgrade))) 1) = Some (Some ''Paid'')"
    by simp
  from td have r4: "map SubscriptionLevel
     (Subscriptions (database (fst (admin_subscriptions ex_sql_int
        (ex_world (Some ex_session_admin)) POST ex_form_refund)))) =
     [Some ''Free'', Some ''Paid'']"
    unfolding lv by blast
  from b a r1 r2 r3 r4 show ?thesis by simp
qed

section \<open>Insertion of users\<close>



section \<open>Properties of registration\<close>

lemma get_navbar_html_raises: "get_navbar_html w = Inl (UndefinedError ''current_user'')"
  by (simp add: get_navbar_html_def jinja_call_def template_globals_def)

text \<open>
  Claim C7, on the code. Every request to the registration handler raises
  \<^verbatim>\<open>UndefinedError\<close> while the navbar is rendered, before the required fields are checked and
  before the email is looked up, and leaves the store and the session as they were. So a
  registration with the email of an existing user, every field present, ends in that error
  and not in a validation error, and no registration succeeds.
\<close>

theorem register_raises_before_validation:
  "register w method form = (w, Inl (UndefinedError ''current_user'')) \<and>
   list_all (\<lambda>field. truthy (ex_form_register ''ann@example.org'' field)) required_fields \<and>
   select_user_by_email (database (ex_world None)) (ex_form_register ''ann@example.org'' ''email'') =
     Some ex_ann \<and>
   register (ex_world None) POST (ex_form_register ''ann@example.org'') =
     (ex_world None, Inl (UndefinedError ''current_user''))"
proof -
  have r: "register w' m form' = (w', Inl (UndefinedError ''current_user''))" for w' m form'
    by (simp add: register_def get_navbar_html_raises)
  have f: "list_all (\<lambda>field. truthy (ex_form_register ''ann@example.org'' field)) required_fields"
    by (simp add: required_fields_def ex_form_register_def truthy_def)
  have e: "select_user_by_email (database (ex_world None))
      (ex_form_register ''ann@example.org'' ''email'') = Some ex_ann"
    by (simp add: ex_form_register_def select_user_by_email_def ex_store_def ex_ann_def)
  from r f e show ?thesis by simp
qed

section \<open>Properties of the OAuth callback\<close>








lemma login_user_simps [simp]:
  "database (login_user w uid em r) = database w"
  "session (login_user w uid em r) = Some \<lparr>user_id = uid, email = em, role = r\<rparr>"
  "calls (login_user w uid em r) = calls w @ [Call_login_user uid em r]"
  by (simp_all add: login_user_def)








lemma set_column_keeps [simp]:
  "UserID (set_column c v u) = UserID u"
  "Email (set_column c v u) = Email u"
  "RoleType (set_column c v u) = RoleType u"
  by (simp_all add: set_column_def)




lemma get_column_other_updates [simp]:
  "get_column c (u\<lparr>UserID := i, Email := e, CreatedDate := cr, IsActive := ia\<rparr>) = get_column c u"
  by (simp add: get_column_def)























section \<open>Properties of the cache-fronted list views\<close>

text \<open>
  Claim C10, on the code. Each of the three list views raises \<^verbatim>\<open>UndefinedError\<close> while
  the navbar is rendered, which is its first statement: the cache is neither read nor
  written and the store is not queried, whatever the cache holds. So with nothing cached
  the home page stores nothing under its key, and with the consultants cached the
  directory does not come to use them.
\<close>

theorem list_views_raise_before_cache:
  "home loads_e dumps_e fromisoformat now_dt c w = (c, Inl (UndefinedError ''current_user'')) \<and>
   list_events loads_e dumps_e fromisoformat now_dt c w =
     (c, Inl (UndefinedError ''current_user'')) \<and>
   list_consultants loads_c dumps_c c w = (c, Inl (UndefinedError ''current_user'')) \<and>
   redis_get Map.empty ''homepage_events'' = None \<and>
   fst (home ex_json_loads ex_json_dumps ex_fromisoformat ex_start Map.empty (ex_world None))
     ''homepage_events'' = None \<and>
   redis_get ex_cache ''consultants_list'' = Some ''[]'' \<and>
   list_consultants ex_json_loads ex_json_dumps ex_cache (ex_world None) =
     (ex_cache, Inl (UndefinedError ''current_user''))"
  by (simp add: home_def list_events_def list_consultants_def get_navbar_html_raises
      redis_get_def ex_cache_def)

end
